theory Spec2Isabelle
  imports Main
begin

section \<open>Python values\<close>

text \<open>
  The program handles parsed JSON documents (the configuration file and the calendar
  payload) as ordinary Python values. A JSON object is kept as an association list in
  the order of the document; a lookup takes the first entry of a key. JSON numbers are
  restricted to integers.
\<close>

datatype json =
    JNull
  | JBool bool
  | JNum int
  | JStr string
  | JArr "json list"
  | JObj "(string \<times> json) list"

datatype py_error = AttributeError | TypeError | KeyError | EOFError | ValueError

text \<open>Python truthiness: \<open>None\<close>, \<open>False\<close>, \<open>0\<close>, the empty string, list and dict are false.\<close>

fun truthy :: "json \<Rightarrow> bool" where
  "truthy JNull = False"
| "truthy (JBool b) = b"
| "truthy (JNum n) = (n \<noteq> 0)"
| "truthy (JStr s) = (s \<noteq> [])"
| "truthy (JArr xs) = (xs \<noteq> [])"
| "truthy (JObj kvs) = (kvs \<noteq> [])"

text \<open>
  Python's \<open>==\<close> on these values: \<open>True == 1\<close> and \<open>False == 0\<close> hold, lists are
  compared elementwise, dicts as mappings, and values of different kinds are unequal.
\<close>

lemma size_prod_snd: "size_prod (\<lambda>x. 0) size = (\<lambda>p. Suc (size (snd p)))"
  by (rule ext) (simp add: size_prod_simp)

function py_eq :: "json \<Rightarrow> json \<Rightarrow> bool"
  and py_eq_list :: "json list \<Rightarrow> json list \<Rightarrow> bool"
  and py_sub :: "(string \<times> json) list \<Rightarrow> (string \<times> json) list \<Rightarrow> bool"
  and py_find :: "string \<Rightarrow> json \<Rightarrow> (string \<times> json) list \<Rightarrow> bool" where
  "py_eq JNull y = (case y of JNull \<Rightarrow> True | _ \<Rightarrow> False)"
| "py_eq (JBool a) y =
     (case y of JBool b \<Rightarrow> a = b | JNum n \<Rightarrow> n = (if a then 1 else 0) | _ \<Rightarrow> False)"
| "py_eq (JNum m) y =
     (case y of JBool b \<Rightarrow> m = (if b then 1 else 0) | JNum n \<Rightarrow> m = n | _ \<Rightarrow> False)"
| "py_eq (JStr s) y = (case y of JStr t \<Rightarrow> s = t | _ \<Rightarrow> False)"
| "py_eq (JArr xs) y = (case y of JArr ys \<Rightarrow> py_eq_list xs ys | _ \<Rightarrow> False)"
| "py_eq (JObj xs) y =
     (case y of JObj ys \<Rightarrow> py_sub xs ys \<and> py_sub ys xs | _ \<Rightarrow> False)"
| "py_eq_list [] ys = (ys = [])"
| "py_eq_list (x # xs) ys =
     (case ys of [] \<Rightarrow> False | y # ys' \<Rightarrow> py_eq x y \<and> py_eq_list xs ys')"
| "py_sub [] ys = True"
| "py_sub (kv # xs) ys = (py_find (fst kv) (snd kv) ys \<and> py_sub xs ys)"
| "py_find k v [] = False"
| "py_find k v (kw # ys) = (if k = fst kw then py_eq v (snd kw) else py_find k v ys)"
  by pat_completeness auto
termination
  by (relation "measure (\<lambda>a. case a of
        Inl (Inl (x, y)) \<Rightarrow> size x + size y
      | Inl (Inr (xs, ys)) \<Rightarrow> size_list size xs + size_list size ys
      | Inr (Inl (xs, ys)) \<Rightarrow>
          size_list (\<lambda>p. Suc (size (snd p))) xs
          + size_list (\<lambda>p. Suc (size (snd p))) ys
      | Inr (Inr (k, v, ys)) \<Rightarrow> size v + size_list (\<lambda>p. Suc (size (snd p))) ys)")
    (auto simp: size_prod_snd)

text \<open>\<open>x in xs\<close> for a list \<open>xs\<close>.\<close>

fun py_in_list :: "json \<Rightarrow> json list \<Rightarrow> bool" where
  "py_in_list x [] = False"
| "py_in_list x (y # ys) = (py_eq y x \<or> py_in_list x ys)"

text \<open>
  \<open>d.get(k, default)\<close>: only a dict has the method; on any other value Python raises
  \<open>AttributeError\<close>.
\<close>

definition py_get :: "json \<Rightarrow> string \<Rightarrow> json \<Rightarrow> py_error + json" where
  "py_get d k dflt =
     (case d of
        JObj kvs \<Rightarrow> Inr (case map_of kvs k of None \<Rightarrow> dflt | Some v \<Rightarrow> v)
      | _ \<Rightarrow> Inl AttributeError)"

text \<open>
  A chain \<open>d.get(k1, {}).get(k2, {}) ... .get(kn, default)\<close>, as the program writes its
  look-ups into the configuration.
\<close>

fun py_path :: "json \<Rightarrow> string list \<Rightarrow> json \<Rightarrow> py_error + json" where
  "py_path d [] dflt = Inr d"
| "py_path d [k] dflt = py_get d k dflt"
| "py_path d (k # ks) dflt =
     (case py_get d k (JObj []) of Inl e \<Rightarrow> Inl e | Inr d' \<Rightarrow> py_path d' ks dflt)"

text \<open>
  \<open>for x in v\<close>: a list yields its elements, a dict its keys, a string its characters;
  \<open>None\<close>, booleans and numbers are not iterable.
\<close>

definition py_iter :: "json \<Rightarrow> py_error + json list" where
  "py_iter v =
     (case v of
        JArr xs \<Rightarrow> Inr xs
      | JObj kvs \<Rightarrow> Inr (map (\<lambda>kv. JStr (fst kv)) kvs)
      | JStr s \<Rightarrow> Inr (map (\<lambda>c. JStr [c]) s)
      | _ \<Rightarrow> Inl TypeError)"

fun strip_prefix :: "string \<Rightarrow> string \<Rightarrow> string option" where
  "strip_prefix [] s = Some s"
| "strip_prefix (p # ps) [] = None"
| "strip_prefix (p # ps) (c # cs) = (if p = c then strip_prefix ps cs else None)"

fun is_substring :: "string \<Rightarrow> string \<Rightarrow> bool" where
  "is_substring k [] = (k = [])"
| "is_substring k (c # cs) = (strip_prefix k (c # cs) \<noteq> None \<or> is_substring k cs)"

text \<open>
  \<open>k in v\<close> for a string \<open>k\<close>: key membership in a dict, element membership in a list,
  substring test in a string, \<open>TypeError\<close> otherwise.
\<close>

definition py_contains :: "string \<Rightarrow> json \<Rightarrow> py_error + bool" where
  "py_contains k v =
     (case v of
        JObj kvs \<Rightarrow> Inr (map_of kvs k \<noteq> None)
      | JArr xs \<Rightarrow> Inr (py_in_list (JStr k) xs)
      | JStr s \<Rightarrow> Inr (is_substring k s)
      | _ \<Rightarrow> Inl TypeError)"

text \<open>\<open>v[k]\<close> for a string \<open>k\<close>: defined on dicts only.\<close>

definition py_getitem :: "json \<Rightarrow> string \<Rightarrow> py_error + json" where
  "py_getitem v k =
     (case v of
        JObj kvs \<Rightarrow> (case map_of kvs k of None \<Rightarrow> Inl KeyError | Some x \<Rightarrow> Inr x)
      | _ \<Rightarrow> Inl TypeError)"

text \<open>
  \<open>sep.join(xs)\<close>: every element must be a string, otherwise \<open>TypeError\<close>.
\<close>

fun py_join :: "string \<Rightarrow> json list \<Rightarrow> py_error + string" where
  "py_join sep [] = Inr []"
| "py_join sep [x] = (case x of JStr s \<Rightarrow> Inr s | _ \<Rightarrow> Inl TypeError)"
| "py_join sep (x # xs) =
     (case x of
        JStr s \<Rightarrow> (case py_join sep xs of Inl e \<Rightarrow> Inl e | Inr r \<Rightarrow> Inr (s @ sep @ r))
      | _ \<Rightarrow> Inl TypeError)"

section \<open>Collection filter\<close>

text \<open>
  The inner loop of \<open>get_tomorrow_collections\<close> over the flags of one event, and the outer
  loop over the events. \<open>acc\<close> is \<open>collection_types\<close>; \<open>tomorrow\<close> is the date string the
  function computes from the clock.
\<close>

fun collect_flags :: "json list \<Rightarrow> json list \<Rightarrow> py_error + json list" where
  "collect_flags [] acc = Inr acc"
| "collect_flags (flag # flags) acc =
     (case py_get flag ''subject'' JNull of
        Inl e \<Rightarrow> Inl e
      | Inr collection_type \<Rightarrow>
          collect_flags flags
            (if truthy collection_type \<and> \<not> py_in_list collection_type acc
             then acc @ [collection_type] else acc))"

fun collect_events :: "string \<Rightarrow> json list \<Rightarrow> json list \<Rightarrow> py_error + json list" where
  "collect_events tomorrow [] acc = Inr acc"
| "collect_events tomorrow (event # events) acc =
     (case py_get event ''day'' JNull of
        Inl e \<Rightarrow> Inl e
      | Inr day \<Rightarrow>
          if py_eq day (JStr tomorrow) then
            (case py_get event ''flags'' (JArr []) of
               Inl e \<Rightarrow> Inl e
             | Inr fl \<Rightarrow>
                 (case py_iter fl of
                    Inl e \<Rightarrow> Inl e
                  | Inr flags \<Rightarrow>
                      (case collect_flags flags acc of
                         Inl e \<Rightarrow> Inl e
                       | Inr acc' \<Rightarrow> collect_events tomorrow events acc')))
          else collect_events tomorrow events acc)"

definition get_tomorrow_collections :: "string \<Rightarrow> json \<Rightarrow> py_error + json list" where
  "get_tomorrow_collections tomorrow data =
     (if \<not> truthy data then Inr []
      else
        (case py_contains ''events'' data of
           Inl e \<Rightarrow> Inl e
         | Inr present \<Rightarrow>
             if \<not> present then Inr []
             else
               (case py_getitem data ''events'' of
                  Inl e \<Rightarrow> Inl e
                | Inr evs \<Rightarrow>
                    (case py_iter evs of
                       Inl e \<Rightarrow> Inl e
                     | Inr events \<Rightarrow> collect_events tomorrow events []))))"

section \<open>ID extraction\<close>

text \<open>
  The three regular expressions of \<open>extract_ids_from_curl\<close>. Text is ASCII; \<open>\s\<close> is
  the white space of Python's \<open>str\<close> patterns in that range.
\<close>

definition is_place_char :: "char \<Rightarrow> bool" where
  "is_place_char c = (c \<in> set ''0123456789ABCDEF-'')"

definition is_digit_char :: "char \<Rightarrow> bool" where
  "is_digit_char c = (c \<in> set ''0123456789'')"

definition is_space_char :: "char \<Rightarrow> bool" where
  "is_space_char c =
     (c \<in> set [CHR 0x09, CHR 0x0A, CHR 0x0B, CHR 0x0C, CHR 0x0D,
                CHR 0x1C, CHR 0x1D, CHR 0x1E, CHR 0x1F, CHR 0x20])"

text \<open>
  A literal followed by one group \<open>([class]+)\<close>, matched at the start of \<open>s\<close>. The group
  is greedy; nothing follows it in the pattern, so it is the longest run of the class.
\<close>

definition match_group :: "string \<Rightarrow> (char \<Rightarrow> bool) \<Rightarrow> string \<Rightarrow> string option" where
  "match_group lit cls s =
     (case strip_prefix lit s of
        None \<Rightarrow> None
      | Some r \<Rightarrow> if takeWhile cls r = [] then None else Some (takeWhile cls r))"

text \<open>
  \<open>X-Recollect-Place:\s*([0-9A-F-]+):([0-9]+)\<close> matched at the start of \<open>s\<close>. White
  space is not in the first class and the colon is in neither class, so giving back
  characters of a greedy run never yields another match: the runs are the longest ones.
\<close>

definition match_header :: "string \<Rightarrow> (string \<times> string) option" where
  "match_header s =
     (case strip_prefix ''X-Recollect-Place:'' s of
        None \<Rightarrow> None
      | Some r \<Rightarrow>
          (let r1 = dropWhile is_space_char r;
               g1 = takeWhile is_place_char r1
           in if g1 = [] then None
              else
                (case dropWhile is_place_char r1 of
                   [] \<Rightarrow> None
                 | c # r3 \<Rightarrow>
                     if c = CHR '':'' \<and> takeWhile is_digit_char r3 \<noteq> []
                     then Some (g1, takeWhile is_digit_char r3) else None)))"

text \<open>\<open>re.search\<close>: the match at the leftmost position that has one.\<close>

fun re_search :: "(string \<Rightarrow> 'a option) \<Rightarrow> string \<Rightarrow> 'a option" where
  "re_search m [] = m []"
| "re_search m (c # cs) =
     (case m (c # cs) of Some g \<Rightarrow> Some g | None \<Rightarrow> re_search m cs)"

text \<open>Truthiness of a value that is \<open>None\<close> or a string.\<close>

fun truthy_str :: "string option \<Rightarrow> bool" where
  "truthy_str None = False"
| "truthy_str (Some s) = (s \<noteq> [])"

definition extract_ids_from_curl :: "string \<Rightarrow> string option \<times> string option" where
  "extract_ids_from_curl curl_command =
     (let place_match = re_search (match_group ''places/'' is_place_char) curl_command;
          service_match = re_search (match_group ''services/'' is_digit_char) curl_command;
          header_match = re_search match_header curl_command;
          place_id0 = place_match;
          service_id0 = service_match;
          place_id =
            (case header_match of
               Some h \<Rightarrow> if \<not> truthy_str place_id0 then Some (fst h) else place_id0
             | None \<Rightarrow> place_id0);
          service_id =
            (case header_match of
               Some h \<Rightarrow> if \<not> truthy_str service_id0 then Some (snd h) else service_id0
             | None \<Rightarrow> service_id0)
      in if truthy_str place_id \<and> truthy_str service_id then (place_id, service_id)
         else (None, None))"

section \<open>The world of a run\<close>

text \<open>
  The three HTTP requests the program can issue:
  \<^item> \<open>GetEvents place_id service_id after before\<close>: \<open>GET\<close> of
    \<open>https://api.recollect.net/api/places/{place_id}/services/{service_id}/events\<close>
    with the fixed query parameters and headers of \<open>get_collection_data\<close>;
  \<^item> \<open>PostPushover token user message\<close>: \<open>POST\<close> to
    \<open>https://api.pushover.net/1/messages.json\<close> with the title
    \<open>Tomorrow's Waste Collection\<close>;
  \<^item> \<open>PostNtfy topic message\<close>: \<open>POST\<close> of the message to \<open>https://ntfy.sh/{topic}\<close>
    with the fixed headers of \<open>send_ntfy_notification\<close>.
\<close>

datatype request =
    GetEvents json json string string
  | PostPushover json json string
  | PostNtfy json string

text \<open>
  What a request comes back with: \<open>requests\<close> raises (a transport error), or returns a
  response with a status code and a body that is a JSON document or is not.
\<close>

datatype body = JsonBody json | NotJson

datatype http_outcome = TransportError | HttpResponse nat body

text \<open>
  \<open>response.raise_for_status()\<close> of the \<open>requests\<close> library raises \<open>HTTPError\<close> for the
  client and server error statuses, 400 to 599, and for no other status.
\<close>

definition raise_for_status :: "nat \<Rightarrow> bool" where
  "raise_for_status status = (400 \<le> status \<and> status < 600)"

datatype effect = Print string | ConfigHelp | Sent request

datatype file_content = Unparseable | Document json

record world =
  config_file :: "file_content option"
  stdin :: "string list"
  log :: "effect list"

text \<open>
  What a run reads and cannot change: the command line, the clock (the weekday with
  Monday as 0, and the dates as \<open>strftime\<close> formats them), the network, and whether
  \<open>response.json()\<close> reports a body that is not JSON as a \<open>RequestException\<close> (as
  \<open>requests\<close> does from version 2.27) or as a \<open>ValueError\<close>.
\<close>

record env =
  arg_force :: bool
  arg_extract_ids :: bool
  arg_config_help :: bool
  weekday :: nat
  today :: string
  tomorrow :: string
  end_date :: string
  net :: "request \<Rightarrow> http_outcome"
  json_error_is_request_exception :: bool

datatype stop = SysExit nat | Uncaught py_error

text \<open>The exit status of the process: an uncaught exception ends it with status 1.\<close>

fun exit_code :: "stop + unit \<Rightarrow> nat" where
  "exit_code (Inr u) = 0"
| "exit_code (Inl (SysExit n)) = n"
| "exit_code (Inl (Uncaught e)) = 1"

definition say :: "string list \<Rightarrow> world \<Rightarrow> world" where
  "say msgs w = w\<lparr>log := log w @ map Print msgs\<rparr>"

definition send :: "env \<Rightarrow> request \<Rightarrow> world \<Rightarrow> http_outcome \<times> world" where
  "send e r w = (net e r, w\<lparr>log := log w @ [Sent r]\<rparr>)"

section \<open>Config store\<close>

definition default_config :: json where
  "default_config =
     JObj [(''recollect'', JObj [(''place_id'', JStr []), (''service_id'', JStr [])]),
           (''notifications'',
             JObj [(''pushover'', JObj [(''enabled'', JBool False), (''user_key'', JStr []),
                                        (''api_token'', JStr [])]),
                   (''ntfy'', JObj [(''enabled'', JBool False), (''topic'', JStr [])])])]"

datatype config_check =
    Missing_recollect | Pushover_incomplete | Ntfy_incomplete | Nothing_enabled | Config_ok

text \<open>
  The checks of \<open>load_config\<close> on the loaded document, in the order of the source. An
  exception of a look-up is the \<open>Inl\<close> result.
\<close>

definition check_config :: "json \<Rightarrow> py_error + config_check" where
  "check_config config =
     (case py_path config [''recollect'', ''place_id''] JNull of
        Inl e \<Rightarrow> Inl e
      | Inr place_id \<Rightarrow>
     if \<not> truthy place_id then Inr Missing_recollect else
     (case py_path config [''recollect'', ''service_id''] JNull of
        Inl e \<Rightarrow> Inl e
      | Inr service_id \<Rightarrow>
     if \<not> truthy service_id then Inr Missing_recollect else
     (case py_path config [''notifications'', ''pushover'', ''enabled''] (JBool False) of
        Inl e \<Rightarrow> Inl e
      | Inr pushover_enabled \<Rightarrow>
     (case py_path config [''notifications'', ''ntfy'', ''enabled''] (JBool False) of
        Inl e \<Rightarrow> Inl e
      | Inr ntfy_enabled \<Rightarrow>
     (case (if truthy pushover_enabled then
              (case py_path config [''notifications'', ''pushover'', ''user_key''] JNull of
                 Inl e \<Rightarrow> Inl e
               | Inr user_key \<Rightarrow>
                   if \<not> truthy user_key then Inr False
                   else
                     (case py_path config [''notifications'', ''pushover'', ''api_token''] JNull of
                        Inl e \<Rightarrow> Inl e
                      | Inr api_token \<Rightarrow> Inr (truthy api_token)))
            else Inr True) of
        Inl e \<Rightarrow> Inl e
      | Inr pushover_ok \<Rightarrow>
     if \<not> pushover_ok then Inr Pushover_incomplete else
     (case (if truthy ntfy_enabled then
              (case py_path config [''notifications'', ''ntfy'', ''topic''] JNull of
                 Inl e \<Rightarrow> Inl e
               | Inr topic \<Rightarrow> Inr (truthy topic))
            else Inr True) of
        Inl e \<Rightarrow> Inl e
      | Inr ntfy_ok \<Rightarrow>
     if \<not> ntfy_ok then Inr Ntfy_incomplete
     else if \<not> truthy pushover_enabled \<and> \<not> truthy ntfy_enabled then Inr Nothing_enabled
     else Inr Config_ok))))))"

text \<open>
  \<open>load_config\<close>: every failure ends in \<open>sys.exit(1)\<close>; \<open>except Exception\<close> turns an
  exception of the body into the same exit, and lets \<open>SystemExit\<close> pass.
\<close>

definition load_config :: "world \<Rightarrow> (stop + json) \<times> world" where
  "load_config w =
     (case config_file w of
        None \<Rightarrow>
          (Inl (SysExit 1),
           w\<lparr>config_file := Some (Document default_config),
             log := log w @ [Print ''Config file created at {CONFIG_FILE}'',
                   Print ''Please edit this file to add your configuration.'', ConfigHelp]\<rparr>)
      | Some Unparseable \<Rightarrow> (Inl (SysExit 1), say [''Error loading config file: {e}''] w)
      | Some (Document config) \<Rightarrow>
          (case check_config config of
             Inl e \<Rightarrow> (Inl (SysExit 1), say [''Error loading config file: {e}''] w)
           | Inr Missing_recollect \<Rightarrow>
               (Inl (SysExit 1),
                w\<lparr>log := log w @
                    [Print ''Missing required ReCollect configuration in {CONFIG_FILE}'',
                     ConfigHelp]\<rparr>)
           | Inr Pushover_incomplete \<Rightarrow>
               (Inl (SysExit 1),
                say [''Pushover is enabled but missing required configuration'',
                     ''Please update your configuration file.''] w)
           | Inr Ntfy_incomplete \<Rightarrow>
               (Inl (SysExit 1),
                say [''ntfy.sh is enabled but missing required topic'',
                     ''Please update your configuration file.''] w)
           | Inr Nothing_enabled \<Rightarrow>
               (Inl (SysExit 1),
                say [''No notification methods are enabled in the configuration'',
                     ''Please enable at least one notification method.''] w)
           | Inr Config_ok \<Rightarrow> (Inr config, w)))"

text \<open>
  \<open>validate_notification_settings\<close>: here a backend counts as enabled only when its flag
  \<open>is True\<close>.
\<close>

definition validate_notification_settings :: "json \<Rightarrow> world \<Rightarrow> (py_error + bool) \<times> world" where
  "validate_notification_settings config w =
     (case py_get config ''notifications'' (JObj []) of
        Inl e \<Rightarrow> (Inl e, w)
      | Inr notifications \<Rightarrow>
     (case py_get notifications ''pushover'' (JObj []) of
        Inl e \<Rightarrow> (Inl e, w)
      | Inr pushover \<Rightarrow>
     (case py_get pushover ''enabled'' JNull of
        Inl e \<Rightarrow> (Inl e, w)
      | Inr pushover_enabled \<Rightarrow>
     (case (if pushover_enabled = JBool True then
              (case py_get pushover ''user_key'' JNull of
                 Inl e \<Rightarrow> Inl e
               | Inr user_key \<Rightarrow>
                   if \<not> truthy user_key then Inr False
                   else
                     (case py_get pushover ''api_token'' JNull of
                        Inl e \<Rightarrow> Inl e
                      | Inr api_token \<Rightarrow> Inr (truthy api_token)))
            else Inr True) of
        Inl e \<Rightarrow> (Inl e, w)
      | Inr pushover_ok \<Rightarrow>
     if \<not> pushover_ok then
       (Inr False,
        say [''Error: Pushover is enabled but missing required keys (user_key or api_token)''] w)
     else
     (case py_get notifications ''ntfy'' (JObj []) of
        Inl e \<Rightarrow> (Inl e, w)
      | Inr ntfy \<Rightarrow>
     (case py_get ntfy ''enabled'' JNull of
        Inl e \<Rightarrow> (Inl e, w)
      | Inr ntfy_enabled \<Rightarrow>
     (case (if ntfy_enabled = JBool True then
              (case py_get ntfy ''topic'' JNull of
                 Inl e \<Rightarrow> Inl e
               | Inr topic \<Rightarrow> Inr (truthy topic))
            else Inr True) of
        Inl e \<Rightarrow> (Inl e, w)
      | Inr ntfy_ok \<Rightarrow>
     if \<not> ntfy_ok then
       (Inr False, say [''Error: ntfy.sh is enabled but missing required topic''] w)
     else (Inr True, w))))))))"

section \<open>ID extraction helper\<close>

text \<open>
  The input loop of \<open>extract_ids\<close>: \<open>input()\<close> takes the next line of standard input
  and raises \<open>EOFError\<close> when there is none; a line of white space only ends the loop.
\<close>

fun read_lines :: "string list \<Rightarrow> string list \<Rightarrow> (py_error + string list) \<times> string list" where
  "read_lines [] curl_lines = (Inl EOFError, [])"
| "read_lines (line # rest) curl_lines =
     (if list_all is_space_char line then (Inr curl_lines, rest)
      else read_lines rest (curl_lines @ [line]))"

fun join_lines :: "string list \<Rightarrow> string" where
  "join_lines [] = []"
| "join_lines [l] = l"
| "join_lines (l # ls) = l @ '' '' @ join_lines ls"

text \<open>\<open>config[k] = v\<close>: a dict takes the entry (in place when the key is there).\<close>

fun dict_set :: "string \<Rightarrow> json \<Rightarrow> (string \<times> json) list \<Rightarrow> (string \<times> json) list" where
  "dict_set k v [] = [(k, v)]"
| "dict_set k v (kw # kvs) = (if fst kw = k then (k, v) # kvs else kw # dict_set k v kvs)"

definition py_setitem :: "json \<Rightarrow> string \<Rightarrow> json \<Rightarrow> py_error + json" where
  "py_setitem d k v = (case d of JObj kvs \<Rightarrow> Inr (JObj (dict_set k v kvs)) | _ \<Rightarrow> Inl TypeError)"

definition fresh_config :: json where
  "fresh_config =
     JObj [(''recollect'', JObj []),
           (''notifications'',
             JObj [(''pushover'', JObj [(''enabled'', JBool False), (''user_key'', JStr []),
                                        (''api_token'', JStr [])]),
                   (''ntfy'', JObj [(''enabled'', JBool False), (''topic'', JStr [])])])]"

text \<open>A value that is \<open>None\<close> or a string, as the document holds it and as it prints.\<close>

fun str_json :: "string option \<Rightarrow> json" where
  "str_json None = JNull"
| "str_json (Some s) = JStr s"

fun str_text :: "string option \<Rightarrow> string" where
  "str_text None = ''None''"
| "str_text (Some s) = s"

text \<open>
  The \<open>try\<close> block of \<open>extract_ids\<close> that updates the file: the result is the new
  content, or the exception that \<open>except Exception\<close> catches before anything is written.
\<close>

definition updated_config ::
  "file_content option \<Rightarrow> string option \<Rightarrow> string option \<Rightarrow> py_error + json" where
  "updated_config file place_id service_id =
     (case (case file of
              None \<Rightarrow> Inr fresh_config
            | Some Unparseable \<Rightarrow> Inl ValueError
            | Some (Document config) \<Rightarrow> Inr config) of
        Inl e \<Rightarrow> Inl e
      | Inr config \<Rightarrow>
          py_setitem config ''recollect''
            (JObj [(''place_id'', str_json place_id), (''service_id'', str_json service_id)]))"

definition extract_ids :: "world \<Rightarrow> (stop + unit) \<times> world" where
  "extract_ids w =
     (let w1 = say [''Please paste a curl command from your waste collection website's network requests.'',
                    ''(Right-click a request in browser dev tools Network tab -> Copy as cURL)'',
                    ''Press Enter twice when done pasting:''] w
      in case read_lines (stdin w1) [] of
           (Inl e, rest) \<Rightarrow> (Inl (Uncaught e), w1\<lparr>stdin := rest\<rparr>)
         | (Inr curl_lines, rest) \<Rightarrow>
             (let w2 = w1\<lparr>stdin := rest\<rparr>;
                  ids = extract_ids_from_curl (join_lines curl_lines);
                  place_id = fst ids;
                  service_id = snd ids
              in if truthy_str place_id \<and> truthy_str service_id then
                   (let w3 = say [CHR 0x0A # ''Extracted IDs:'', ''place_id: '' @ str_text place_id,
                                  ''service_id: '' @ str_text service_id] w2
                    in case updated_config (config_file w3) place_id service_id of
                         Inl e \<Rightarrow> (Inr (), say [''Error updating config file: {e}''] w3)
                       | Inr config \<Rightarrow>
                           (Inr (),
                            say [CHR 0x0A # ''Updated config file with these IDs: {CONFIG_FILE}'']
                              (w3\<lparr>config_file := Some (Document config)\<rparr>)))
                 else
                   (Inr (),
                    say [CHR 0x0A # ''Could not extract the IDs from the provided curl command.'',
                         ''Please make sure you copied a valid curl command from the ReCollect API.'']
                      w2)))"

section \<open>Calendar client\<close>

text \<open>
  \<open>get_collection_data\<close>: the look-ups into the configuration stand before the \<open>try\<close>;
  the \<open>try\<close> catches \<open>RequestException\<close> only, and \<open>None\<close> is the result then.
\<close>

definition get_collection_data :: "env \<Rightarrow> json \<Rightarrow> world \<Rightarrow> (py_error + json) \<times> world" where
  "get_collection_data e config w =
     (case py_get config ''recollect'' (JObj []) of
        Inl err \<Rightarrow> (Inl err, w)
      | Inr recollect_config \<Rightarrow>
     (case py_get recollect_config ''place_id'' JNull of
        Inl err \<Rightarrow> (Inl err, w)
      | Inr place_id \<Rightarrow>
     (case py_get recollect_config ''service_id'' JNull of
        Inl err \<Rightarrow> (Inl err, w)
      | Inr service_id \<Rightarrow>
     (case send e (GetEvents place_id service_id (today e) (end_date e)) w of
        (TransportError, w1) \<Rightarrow> (Inr JNull, say [''Error fetching collection data: {e}''] w1)
      | (HttpResponse status b, w1) \<Rightarrow>
          if raise_for_status status then
            (Inr JNull, say [''Error fetching collection data: {e}''] w1)
          else
            (case b of
               JsonBody data \<Rightarrow> (Inr data, w1)
             | NotJson \<Rightarrow>
                 if json_error_is_request_exception e then
                   (Inr JNull, say [''Error fetching collection data: {e}''] w1)
                 else (Inl ValueError, w1))))))"

section \<open>Notification dispatchers\<close>

definition send_pushover_notification ::
  "env \<Rightarrow> json list \<Rightarrow> json \<Rightarrow> world \<Rightarrow> (py_error + bool) \<times> world" where
  "send_pushover_notification e collection_types config w =
     (case py_path config [''notifications'', ''pushover''] (JObj []) of
        Inl err \<Rightarrow> (Inl err, w)
      | Inr pushover_config \<Rightarrow>
     (case py_get pushover_config ''enabled'' (JBool False) of
        Inl err \<Rightarrow> (Inl err, w)
      | Inr enabled \<Rightarrow>
     if \<not> truthy enabled then (Inr False, w)
     else
     (case (if collection_types = [] then Inr ''No waste collection scheduled for tomorrow.''
            else
              (case py_join '', '' collection_types of
                 Inl err \<Rightarrow> Inl err
               | Inr joined \<Rightarrow> Inr (''Tomorrow's collection includes: '' @ joined @ ''.''))) of
        Inl err \<Rightarrow> (Inl err, w)
      | Inr message \<Rightarrow>
     (case py_get pushover_config ''api_token'' JNull of
        Inl err \<Rightarrow> (Inl err, w)
      | Inr api_token \<Rightarrow>
     (case py_get pushover_config ''user_key'' JNull of
        Inl err \<Rightarrow> (Inl err, w)
      | Inr user_key \<Rightarrow>
     (case send e (PostPushover api_token user_key message) w of
        (TransportError, w1) \<Rightarrow>
          (Inr False, say [''Error sending Pushover notification: {e}''] w1)
      | (HttpResponse status b, w1) \<Rightarrow>
          if raise_for_status status then
            (Inr False, say [''Error sending Pushover notification: {e}''] w1)
          else (Inr True, say [''Pushover notification sent successfully''] w1)))))))"

definition send_ntfy_notification ::
  "env \<Rightarrow> json list \<Rightarrow> json \<Rightarrow> world \<Rightarrow> (py_error + bool) \<times> world" where
  "send_ntfy_notification e collection_types config w =
     (case py_path config [''notifications'', ''ntfy''] (JObj []) of
        Inl err \<Rightarrow> (Inl err, w)
      | Inr ntfy_config \<Rightarrow>
     (case py_get ntfy_config ''enabled'' (JBool False) of
        Inl err \<Rightarrow> (Inl err, w)
      | Inr enabled \<Rightarrow>
     if \<not> truthy enabled then (Inr False, w)
     else
     (case (if collection_types = [] then Inr ''No waste collection scheduled for tomorrow.''
            else
              (case py_join '', '' collection_types of
                 Inl err \<Rightarrow> Inl err
               | Inr joined \<Rightarrow> Inr (''Tomorrow's collection includes: '' @ joined @ ''.''))) of
        Inl err \<Rightarrow> (Inl err, w)
      | Inr message \<Rightarrow>
     (case py_get ntfy_config ''topic'' JNull of
        Inl err \<Rightarrow> (Inl err, w)
      | Inr topic \<Rightarrow>
     (case send e (PostNtfy topic message) w of
        (TransportError, w1) \<Rightarrow>
          (Inr False, say [''Error sending ntfy.sh notification: {e}''] w1)
      | (HttpResponse status b, w1) \<Rightarrow>
          if raise_for_status status then
            (Inr False, say [''Error sending ntfy.sh notification: {e}''] w1)
          else (Inr True, say [''ntfy.sh notification sent successfully''] w1))))))"

section \<open>Entry point\<close>

text \<open>
  The normal run mode of \<open>main\<close>, from \<open>load_config\<close> on. An exception that no handler
  catches ends the run as \<open>Uncaught\<close>.
\<close>

definition normal_run :: "env \<Rightarrow> world \<Rightarrow> (stop + unit) \<times> world" where
  "normal_run e w =
     (case load_config w of
        (Inl s, w1) \<Rightarrow> (Inl s, w1)
      | (Inr config, w1) \<Rightarrow>
     (case validate_notification_settings config w1 of
        (Inl err, w2) \<Rightarrow> (Inl (Uncaught err), w2)
      | (Inr valid, w2) \<Rightarrow>
     if \<not> valid then
       (Inl (SysExit 1),
        say [''Please update your configuration file with the required values.''] w2)
     else if \<not> arg_force e \<and> weekday e \<noteq> 6 then
       (Inr (),
        say [''Not running because today is not Sunday'',
             ''Use --force to run regardless of day''] w2)
     else
     (case get_collection_data e config w2 of
        (Inl err, w3) \<Rightarrow> (Inl (Uncaught err), w3)
      | (Inr collection_data, w3) \<Rightarrow>
     if \<not> truthy collection_data then
       (Inr (), say [''Failed to retrieve collection data''] w3)
     else
     (case get_tomorrow_collections (tomorrow e) collection_data of
        Inl err \<Rightarrow> (Inl (Uncaught err), w3)
      | Inr tomorrow_collections \<Rightarrow>
     (case send_pushover_notification e tomorrow_collections config w3 of
        (Inl err, w4) \<Rightarrow> (Inl (Uncaught err), w4)
      | (Inr pushover_success, w4) \<Rightarrow>
     (case send_ntfy_notification e tomorrow_collections config w4 of
        (Inl err, w5) \<Rightarrow> (Inl (Uncaught err), w5)
      | (Inr ntfy_success, w5) \<Rightarrow>
          (Inr (),
           if \<not> (pushover_success \<or> ntfy_success)
           then say [''Warning: No notifications were sent successfully''] w5
           else w5)))))))"

text \<open>
  \<open>main\<close>: the three flags form a mutually exclusive group, so \<open>parse_args\<close> ends the
  process with status 2 when more than one is given.
\<close>

definition main :: "env \<Rightarrow> world \<Rightarrow> (stop + unit) \<times> world" where
  "main e w =
     (if (arg_force e \<and> arg_extract_ids e) \<or> (arg_force e \<and> arg_config_help e)
         \<or> (arg_extract_ids e \<and> arg_config_help e)
      then (Inl (SysExit 2), w)
      else if arg_config_help e then (Inr (), w\<lparr>log := log w @ [ConfigHelp]\<rparr>)
      else if arg_extract_ids e then extract_ids w
      else normal_run e w)"

section \<open>Reading a calendar payload\<close>

text \<open>
  The payload as the specification describes it: an \<open>events\<close> array of events, each
  with a \<open>day\<close> and an array of \<open>flags\<close>, each flag with a \<open>subject\<close> label. A payload
  is well formed when its events are objects whose flags, if any, are an array of
  objects whose subject, if any, is a string or \<open>null\<close>.
\<close>

definition flag_subject :: "json \<Rightarrow> string option" where
  "flag_subject flag =
     (case flag of
        JObj kvs \<Rightarrow> (case map_of kvs ''subject'' of Some (JStr s) \<Rightarrow> Some s | _ \<Rightarrow> None)
      | _ \<Rightarrow> None)"

definition event_flags :: "json \<Rightarrow> json list" where
  "event_flags event =
     (case event of
        JObj kvs \<Rightarrow> (case map_of kvs ''flags'' of Some (JArr fs) \<Rightarrow> fs | _ \<Rightarrow> [])
      | _ \<Rightarrow> [])"

definition event_day :: "json \<Rightarrow> json" where
  "event_day event =
     (case event of
        JObj kvs \<Rightarrow> (case map_of kvs ''day'' of Some d \<Rightarrow> d | None \<Rightarrow> JNull)
      | _ \<Rightarrow> JNull)"

definition payload_events :: "json \<Rightarrow> json list" where
  "payload_events data =
     (case data of
        JObj kvs \<Rightarrow> (case map_of kvs ''events'' of Some (JArr evs) \<Rightarrow> evs | _ \<Rightarrow> [])
      | _ \<Rightarrow> [])"

definition wf_flag :: "json \<Rightarrow> bool" where
  "wf_flag flag =
     (case flag of
        JObj kvs \<Rightarrow>
          (case map_of kvs ''subject'' of
             None \<Rightarrow> True | Some JNull \<Rightarrow> True | Some (JStr s) \<Rightarrow> True | Some _ \<Rightarrow> False)
      | _ \<Rightarrow> False)"

definition wf_event :: "json \<Rightarrow> bool" where
  "wf_event event =
     (case event of
        JObj kvs \<Rightarrow>
          (case map_of kvs ''flags'' of
             None \<Rightarrow> True | Some (JArr fs) \<Rightarrow> list_all wf_flag fs | Some _ \<Rightarrow> False)
      | _ \<Rightarrow> False)"

definition wf_payload :: "json \<Rightarrow> bool" where
  "wf_payload data =
     (case data of
        JObj kvs \<Rightarrow>
          (case map_of kvs ''events'' of
             None \<Rightarrow> True | Some (JArr evs) \<Rightarrow> list_all wf_event evs | Some _ \<Rightarrow> False)
      | _ \<Rightarrow> False)"

text \<open>
  The subjects of the flags on the events whose day is tomorrow, in the order of the
  payload, and the distinct elements of a list in the order of their first occurrence.
\<close>

definition tomorrow_subjects :: "string \<Rightarrow> json \<Rightarrow> string list" where
  "tomorrow_subjects tm data =
     concat (map (\<lambda>event. List.map_filter flag_subject (event_flags event))
       (filter (\<lambda>event. event_day event = JStr tm) (payload_events data)))"

fun first_seen :: "'a list \<Rightarrow> 'a list" where
  "first_seen [] = []"
| "first_seen (x # xs) = x # first_seen (filter (\<lambda>y. y \<noteq> x) xs)"

definition add_new :: "'a list \<Rightarrow> 'a \<Rightarrow> 'a list" where
  "add_new acc x = (if x \<in> set acc then acc else acc @ [x])"

definition sample_payload :: json where
  "sample_payload =
     JObj [(''events'', JArr
       [JObj [(''day'', JStr ''2024-06-02''),
              (''flags'', JArr [JObj [(''subject'', JStr ''Yard'')]])],
        JObj [(''day'', JStr ''2024-06-03''),
              (''flags'', JArr [JObj [(''subject'', JStr ''Garbage'')],
                               JObj [(''subject'', JStr ''Recycling'')],
                               JObj [(''subject'', JStr ''Garbage'')]])]])]"

definition unlabelled_payload :: json where
  "unlabelled_payload =
     JObj [(''events'', JArr
       [JObj [(''day'', JStr ''2024-06-03''),
              (''flags'', JArr [JObj [(''subject'', JStr [])]])]])]"

section \<open>Sample inputs of the ID extraction helper\<close>

definition url_segment :: string where
  "url_segment = ''places/ABC-123/services/456/events''"

definition curl_text :: string where
  "curl_text = ''curl https://api.recollect.net/api/places/ABC-123/services/456/events''"

definition earlier_match_text :: string where
  "earlier_match_text = ''places/0/x places/ABC-123/services/456/events''"

definition header_text :: string where
  "header_text = ''-H X-Recollect-Place: AB-1:77''"

text \<open>The lines the helper prints before it reads, and the record it stores.\<close>

definition prompts :: "string list" where
  "prompts =
     [''Please paste a curl command from your waste collection website's network requests.'',
      ''(Right-click a request in browser dev tools Network tab -> Copy as cURL)'',
      ''Press Enter twice when done pasting:'']"

definition id_pair :: "string \<Rightarrow> string \<Rightarrow> json" where
  "id_pair p q = JObj [(''place_id'', JStr p), (''service_id'', JStr q)]"

definition annotated_config :: json where
  "annotated_config =
     JObj [(''recollect'', JObj [(''place_id'', JStr ''OLD''), (''service_id'', JStr ''1''),
                                 (''note'', JStr ''keep'')]),
           (''notifications'', JObj [(''ntfy'', JObj [(''enabled'', JBool True),
                                                     (''topic'', JStr ''bins'')])])]"

definition paste_world :: "string \<Rightarrow> file_content option \<Rightarrow> world" where
  "paste_world pasted file = \<lparr>config_file = file, stdin = [pasted, []], log = []\<rparr>"

section \<open>Messages and requests of a run\<close>

text \<open>
  The message the specification gives for a list of collection types, and the requests
  that a log records, in their order.
\<close>

fun comma_joined :: "string list \<Rightarrow> string" where
  "comma_joined [] = []"
| "comma_joined [x] = x"
| "comma_joined (x # y # ys) = x @ '', '' @ comma_joined (y # ys)"

definition expected_message :: "string list \<Rightarrow> string" where
  "expected_message types =
     (if types = [] then ''No waste collection scheduled for tomorrow.''
      else ''Tomorrow's collection includes: '' @ comma_joined types @ ''.'')"

fun sent_requests :: "effect list \<Rightarrow> request list" where
  "sent_requests [] = []"
| "sent_requests (Sent r # es) = r # sent_requests es"
| "sent_requests (Print s # es) = sent_requests es"
| "sent_requests (ConfigHelp # es) = sent_requests es"

section \<open>Sample configurations, clocks and networks\<close>

definition notify_config :: "bool \<Rightarrow> bool \<Rightarrow> json" where
  "notify_config pushover ntfy =
     JObj [(''recollect'', JObj [(''place_id'', JStr ''ABC-123''), (''service_id'', JStr ''456'')]),
           (''notifications'',
             JObj [(''pushover'', JObj [(''enabled'', JBool pushover), (''user_key'', JStr ''usr''),
                                        (''api_token'', JStr ''tok'')]),
                   (''ntfy'', JObj [(''enabled'', JBool ntfy), (''topic'', JStr ''bins'')])])]"

definition sample_env :: "bool \<Rightarrow> nat \<Rightarrow> (request \<Rightarrow> http_outcome) \<Rightarrow> env" where
  "sample_env force wd n =
     \<lparr>arg_force = force, arg_extract_ids = False, arg_config_help = False, weekday = wd,
      today = ''2024-06-02'', tomorrow = ''2024-06-03'', end_date = ''2024-06-09'', net = n,
      json_error_is_request_exception = True\<rparr>"

definition sample_world :: "file_content option \<Rightarrow> world" where
  "sample_world file = \<lparr>config_file = file, stdin = [], log = []\<rparr>"

definition net_ok :: "request \<Rightarrow> http_outcome" where
  "net_ok r = (case r of GetEvents p s a b \<Rightarrow> HttpResponse 200 (JsonBody sample_payload)
                       | _ \<Rightarrow> HttpResponse 200 NotJson)"



text \<open>The value of a key in a dict, or the default.\<close>

definition dict_get :: "(string \<times> json) list \<Rightarrow> string \<Rightarrow> json \<Rightarrow> json" where
  "dict_get kvs k d = (case map_of kvs k of None \<Rightarrow> d | Some v \<Rightarrow> v)"

section \<open>What a run is expected to do\<close>

text \<open>
  The collection types of tomorrow, and the outcomes of a request that count as a failure:
  a transport error or an HTTP error status.
\<close>

definition tomorrow_types :: "string \<Rightarrow> json \<Rightarrow> string list" where
  "tomorrow_types tm data = first_seen (filter (\<lambda>s. s \<noteq> []) (tomorrow_subjects tm data))"


text \<open>
  A configuration as the specification requires it: both identifiers non-empty, at least
  one backend enabled, and the credentials of every enabled backend non-empty. A field
  that is missing or cannot be reached counts with its default.
\<close>

definition config_value :: "json \<Rightarrow> string list \<Rightarrow> json \<Rightarrow> json" where
  "config_value config path d = (case py_path config path d of Inr v \<Rightarrow> v | Inl e \<Rightarrow> d)"

definition acceptable_config :: "json \<Rightarrow> bool" where
  "acceptable_config config =
     (truthy (config_value config [''recollect'', ''place_id''] JNull)
      \<and> truthy (config_value config [''recollect'', ''service_id''] JNull)
      \<and> (truthy (config_value config [''notifications'', ''pushover'', ''enabled''] (JBool False))
          \<or> truthy (config_value config [''notifications'', ''ntfy'', ''enabled''] (JBool False)))
      \<and> (truthy (config_value config [''notifications'', ''pushover'', ''enabled''] (JBool False))
          \<longrightarrow> truthy (config_value config [''notifications'', ''pushover'', ''user_key''] JNull)
            \<and> truthy (config_value config [''notifications'', ''pushover'', ''api_token''] JNull))
      \<and> (truthy (config_value config [''notifications'', ''ntfy'', ''enabled''] (JBool False))
          \<longrightarrow> truthy (config_value config [''notifications'', ''ntfy'', ''topic''] JNull)))"

definition no_place_config :: json where
  "no_place_config =
     JObj [(''recollect'', JObj [(''service_id'', JStr ''456'')]),
           (''notifications'',
             JObj [(''pushover'', JObj [(''enabled'', JBool True), (''user_key'', JStr ''usr''),
                                        (''api_token'', JStr ''tok'')])])]"

section \<open>Properties of the collection filter\<close>

lemma foldl_add_new:
  "foldl add_new acc xs = acc @ first_seen (filter (\<lambda>x. x \<notin> set acc) xs)"
proof (induction xs arbitrary: acc)
  case Nil
  then show ?case by simp
next
  case (Cons x xs)
  show ?case
  proof (cases "x \<in> set acc")
    case True
    then show ?thesis using Cons.IH [of acc] by (simp add: add_new_def)
  next
    case False
    have "filter (\<lambda>y. y \<notin> set (acc @ [x])) xs
          = filter (\<lambda>y. y \<noteq> x) (filter (\<lambda>y. y \<notin> set acc) xs)"
      by (auto intro: filter_cong)
    then show ?thesis using False Cons.IH [of "acc @ [x]"] by (simp add: add_new_def)
  qed
qed

lemma set_first_seen: "set (first_seen xs) = set xs"
  by (induction xs rule: first_seen.induct) auto

lemma distinct_first_seen: "distinct (first_seen xs)"
  by (induction xs rule: first_seen.induct) (auto simp: set_first_seen)

lemma py_eq_JStr: "py_eq x (JStr s) = (x = JStr s)"
  by (cases x) auto

lemma py_in_list_strs: "py_in_list (JStr s) (map JStr acc) = (s \<in> set acc)"
  by (induction acc) auto

lemma collect_flags_wf:
  "list_all wf_flag flags \<Longrightarrow>
   collect_flags flags (map JStr acc)
     = Inr (map JStr (foldl add_new acc
         (filter (\<lambda>s. s \<noteq> []) (List.map_filter flag_subject flags))))"
proof (induction flags arbitrary: acc)
  case Nil
  then show ?case by (simp add: List.map_filter_simps)
next
  case (Cons flag flags)
  from Cons.prems have wf: "wf_flag flag" and rest: "list_all wf_flag flags" by simp_all
  from wf obtain kvs where flag: "flag = JObj kvs"
    by (cases flag) (auto simp: wf_flag_def)
  show ?case
  proof (cases "map_of kvs ''subject''")
    case None
    then show ?thesis using Cons.IH [OF rest, of acc] flag
      by (simp add: py_get_def flag_subject_def List.map_filter_simps)
  next
    case (Some v)
    with wf flag consider "v = JNull" | s where "v = JStr s"
      by (cases v) (auto simp: wf_flag_def)
    then show ?thesis
    proof cases
      case 1
      then show ?thesis using Cons.IH [OF rest, of acc] flag Some
        by (simp add: py_get_def flag_subject_def List.map_filter_simps)
    next
      case 2
      show ?thesis
      proof (cases "s \<noteq> [] \<and> s \<notin> set acc")
        case True
        then show ?thesis using Cons.IH [OF rest, of "acc @ [s]"] flag Some 2
          by (simp add: py_get_def flag_subject_def List.map_filter_simps py_in_list_strs
              add_new_def)
      next
        case False
        then show ?thesis using Cons.IH [OF rest, of acc] flag Some 2
          by (auto simp: py_get_def flag_subject_def List.map_filter_simps py_in_list_strs
              add_new_def)
      qed
    qed
  qed
qed

lemma collect_events_wf:
  "list_all wf_event events \<Longrightarrow>
   collect_events tm events (map JStr acc)
     = Inr (map JStr (foldl add_new acc
         (filter (\<lambda>s. s \<noteq> [])
           (concat (map (\<lambda>event. List.map_filter flag_subject (event_flags event))
             (filter (\<lambda>event. event_day event = JStr tm) events))))))"
proof (induction events arbitrary: acc)
  case Nil
  then show ?case by simp
next
  case (Cons event events)
  from Cons.prems have wf: "wf_event event" and rest: "list_all wf_event events" by simp_all
  from wf obtain kvs where event: "event = JObj kvs"
    by (cases event) (auto simp: wf_event_def)
  have day: "py_get event ''day'' JNull = Inr (event_day event)"
    using event by (simp add: py_get_def event_day_def split: option.splits)
  show ?case
  proof (cases "event_day event = JStr tm")
    case False
    then show ?thesis using Cons.IH [OF rest, of acc] day by (simp add: py_eq_JStr)
  next
    case True
    have "\<exists>fl. py_get event ''flags'' (JArr []) = Inr (JArr fl) \<and> event_flags event = fl
            \<and> list_all wf_flag fl"
      using wf event
      by (cases "map_of kvs ''flags''")
        (auto simp: py_get_def event_flags_def wf_event_def split: json.splits)
    then obtain fl where fl: "py_get event ''flags'' (JArr []) = Inr (JArr fl)"
      "event_flags event = fl" "list_all wf_flag fl" by blast
    show ?thesis
      using True day fl(1,2) collect_flags_wf [OF fl(3), of acc]
        Cons.IH [OF rest, of "foldl add_new acc
           (filter (\<lambda>s. s \<noteq> []) (List.map_filter flag_subject fl))"]
      by (simp add: py_eq_JStr py_iter_def)
  qed
qed

lemma get_tomorrow_collections_wf:
  assumes "wf_payload data"
  shows "get_tomorrow_collections tm data
         = Inr (map JStr (first_seen (filter (\<lambda>s. s \<noteq> []) (tomorrow_subjects tm data))))"
proof -
  from assms obtain kvs where data: "data = JObj kvs"
    by (cases data) (auto simp: wf_payload_def)
  show ?thesis
  proof (cases "map_of kvs ''events''")
    case None
    then show ?thesis using data
      by (simp add: get_tomorrow_collections_def py_contains_def tomorrow_subjects_def
          payload_events_def)
  next
    case (Some v)
    with assms data obtain evs where v: "v = JArr evs" and wf: "list_all wf_event evs"
      by (cases v) (auto simp: wf_payload_def)
    have ne: "kvs \<noteq> []" using Some by auto
    show ?thesis
      using data Some v ne collect_events_wf [OF wf, of tm "[]"]
      by (simp add: get_tomorrow_collections_def py_contains_def py_getitem_def py_iter_def
          tomorrow_subjects_def payload_events_def foldl_add_new)
  qed
qed

lemma wf_sample_payload: "wf_payload sample_payload"
  by (simp add: sample_payload_def wf_payload_def wf_event_def wf_flag_def)

lemma sample_payload_subjects:
  "tomorrow_subjects ''2024-06-03'' sample_payload = [''Garbage'', ''Recycling'', ''Garbage'']"
  by (simp add: sample_payload_def tomorrow_subjects_def payload_events_def event_day_def
      event_flags_def flag_subject_def List.map_filter_simps)

text \<open>
  C1, as the claim states it: on a well-formed payload the filter returns the distinct
  subjects of the flags on tomorrow's events, in first-seen order. This fails: a flag
  whose subject is the empty string has a subject, and the filter leaves it out.
\<close>

theorem empty_subject_is_dropped:
  "wf_payload unlabelled_payload
   \<and> get_tomorrow_collections ''2024-06-03'' unlabelled_payload = Inr []
   \<and> map JStr (first_seen (tomorrow_subjects ''2024-06-03'' unlabelled_payload)) = [JStr []]
   \<and> get_tomorrow_collections ''2024-06-03'' unlabelled_payload
       \<noteq> Inr (map JStr (first_seen (tomorrow_subjects ''2024-06-03'' unlabelled_payload)))"
  by (simp add: unlabelled_payload_def wf_payload_def wf_event_def wf_flag_def
      get_tomorrow_collections_def py_contains_def py_getitem_def py_iter_def py_get_def
      tomorrow_subjects_def payload_events_def event_day_def event_flags_def flag_subject_def
      List.map_filter_simps)

text \<open>
  C1, amended: on every well-formed payload \<open>get_tomorrow_collections\<close> returns the
  distinct non-empty subjects of the flags on the events whose day equals tomorrow, in
  first-seen order with duplicates suppressed; and when exactly one event's day equals
  tomorrow and its flags carry the subjects Garbage, Recycling, Garbage in that order,
  the result is exactly Garbage, Recycling.
\<close>

theorem get_tomorrow_collections_first_seen:
  assumes "wf_payload data"
  shows "get_tomorrow_collections tm data
           = Inr (map JStr (first_seen (filter (\<lambda>s. s \<noteq> []) (tomorrow_subjects tm data))))
         \<and> (\<forall>event.
              filter (\<lambda>ev. event_day ev = JStr tm) (payload_events data) = [event]
              \<and> List.map_filter flag_subject (event_flags event)
                  = [''Garbage'', ''Recycling'', ''Garbage'']
              \<longrightarrow> get_tomorrow_collections tm data = Inr [JStr ''Garbage'', JStr ''Recycling''])"
proof (intro conjI allI impI)
  show "get_tomorrow_collections tm data
          = Inr (map JStr (first_seen (filter (\<lambda>s. s \<noteq> []) (tomorrow_subjects tm data))))"
    by (rule get_tomorrow_collections_wf [OF assms])
next
  fix event
  assume one: "filter (\<lambda>ev. event_day ev = JStr tm) (payload_events data) = [event]
      \<and> List.map_filter flag_subject (event_flags event)
          = [''Garbage'', ''Recycling'', ''Garbage'']"
  then have "tomorrow_subjects tm data = [''Garbage'', ''Recycling'', ''Garbage'']"
    by (simp add: tomorrow_subjects_def)
  then show "get_tomorrow_collections tm data = Inr [JStr ''Garbage'', JStr ''Recycling'']"
    by (simp add: get_tomorrow_collections_wf [OF assms])
qed

theorem get_tomorrow_collections_first_seen_witness:
  "wf_payload sample_payload
   \<and> tomorrow_subjects ''2024-06-03'' sample_payload = [''Garbage'', ''Recycling'', ''Garbage'']
   \<and> get_tomorrow_collections ''2024-06-03'' sample_payload
       = Inr [JStr ''Garbage'', JStr ''Recycling'']"
  using get_tomorrow_collections_first_seen [OF wf_sample_payload, of "''2024-06-03''"]
    wf_sample_payload sample_payload_subjects
  by simp

section \<open>Properties of ID extraction\<close>

lemma extract_all_or_nothing:
  "extract_ids_from_curl s = (None, None)
   \<or> (\<exists>p q. extract_ids_from_curl s = (Some p, Some q) \<and> p \<noteq> [] \<and> q \<noteq> [])"
proof (cases "extract_ids_from_curl s = (None, None)")
  case True
  then show ?thesis by simp
next
  case False
  then obtain a b where ab: "extract_ids_from_curl s = (a, b)" "truthy_str a" "truthy_str b"
    unfolding extract_ids_from_curl_def Let_def by (auto split: if_splits)
  then obtain p q where "a = Some p" "p \<noteq> []" "b = Some q" "q \<noteq> []"
    by (cases a; cases b) auto
  with ab show ?thesis by simp
qed

lemma strip_prefix_append:
  "strip_prefix lit p = Some r \<Longrightarrow> strip_prefix lit (p @ x) = Some (r @ x)"
  by (induction lit p rule: strip_prefix.induct) (auto split: if_splits)

lemma strip_prefix_short:
  "strip_prefix lit p = None \<Longrightarrow>
   strip_prefix lit (p @ x) = None
   \<or> (\<exists>lit2. lit = p @ lit2 \<and> lit2 \<noteq> [] \<and> strip_prefix lit (p @ x) = strip_prefix lit2 x)"
  by (induction lit p rule: strip_prefix.induct) (auto split: if_splits)

lemma re_search_append:
  "(\<And>k. k < length pre \<Longrightarrow> m (drop k pre @ s) = None) \<Longrightarrow>
   re_search m (pre @ s) = re_search m s"
proof (induction pre)
  case Nil
  then show ?case by simp
next
  case (Cons c cs)
  have "m ((c # cs) @ s) = None" using Cons.prems [of 0] by simp
  moreover have "re_search m (cs @ s) = re_search m s"
  proof (rule Cons.IH)
    fix k assume "k < length cs"
    then show "m (drop k cs @ s) = None" using Cons.prems [of "Suc k"] by simp
  qed
  ultimately show ?case by simp
qed

lemma re_search_None:
  "re_search m pre = None \<Longrightarrow> m (drop k pre) = None"
proof (induction pre arbitrary: k)
  case Nil
  then show ?case by simp
next
  case (Cons c cs)
  then show ?case by (cases k) (auto split: option.splits)
qed

text \<open>
  A position before a text that starts with \<open>c\<close> has no match of \<open>lit([cls]+)\<close> in the
  longer text when it has none in the shorter one, provided \<open>c\<close> is outside the class and
  occurs in the literal at its first position at most.
\<close>

lemma match_group_before:
  assumes none: "match_group lit cls p = None" and p: "p \<noteq> []"
    and c: "\<not> cls c" "c \<notin> set (tl lit)"
  shows "match_group lit cls (p @ c # rest) = None"
proof (cases "strip_prefix lit p")
  case (Some r)
  with none have r: "takeWhile cls r = []"
    by (simp add: match_group_def split: if_splits)
  have "takeWhile cls (r @ c # rest) = []"
  proof (cases r)
    case Nil
    then show ?thesis using c(1) by simp
  next
    case (Cons d r')
    with r show ?thesis by (simp split: if_splits)
  qed
  then show ?thesis using strip_prefix_append [OF Some, of "c # rest"]
    by (simp add: match_group_def)
next
  case None
  from strip_prefix_short [OF None, of "c # rest"] show ?thesis
  proof
    assume "strip_prefix lit (p @ c # rest) = None"
    then show ?thesis by (simp add: match_group_def)
  next
    assume "\<exists>lit2. lit = p @ lit2 \<and> lit2 \<noteq> []
        \<and> strip_prefix lit (p @ c # rest) = strip_prefix lit2 (c # rest)"
    then obtain lit2 where l: "lit = p @ lit2" "lit2 \<noteq> []"
      "strip_prefix lit (p @ c # rest) = strip_prefix lit2 (c # rest)" by blast
    from l(2) obtain d l2 where d: "lit2 = d # l2" by (cases lit2) auto
    from p obtain x p' where "p = x # p'" by (cases p) auto
    with l(1) d have "d \<in> set (tl lit)" by simp
    with c(2) have "d \<noteq> c" by auto
    with l(3) d show ?thesis by (simp add: match_group_def)
  qed
qed

lemma re_search_skip:
  assumes none: "re_search (match_group lit cls) pre = None"
    and c: "\<not> cls c" "c \<notin> set (tl lit)"
  shows "re_search (match_group lit cls) (pre @ c # rest)
         = re_search (match_group lit cls) (c # rest)"
proof (rule re_search_append)
  fix k assume k: "k < length pre"
  then have "drop k pre \<noteq> []" by simp
  then show "match_group lit cls (drop k pre @ c # rest) = None"
    using match_group_before [OF re_search_None [OF none, of k] _ c] by simp
qed

lemma place_in_segment:
  "re_search (match_group ''places/'' is_place_char)
     (''places/ABC-123/services/456/events'' @ post) = Some ''ABC-123''"
  by (simp add: match_group_def is_place_char_def)

lemma service_in_segment:
  "re_search (match_group ''services/'' is_digit_char)
     (''places/ABC-123/services/456/events'' @ post) = Some ''456''"
  by (simp add: match_group_def is_digit_char_def)

lemma extract_segment:
  assumes "re_search (match_group ''places/'' is_place_char) pre = None"
    and "re_search (match_group ''services/'' is_digit_char) pre = None"
  shows "extract_ids_from_curl (pre @ ''places/ABC-123/services/456/events'' @ post)
         = (Some ''ABC-123'', Some ''456'')"
proof -
  have 1: "re_search (match_group ''places/'' is_place_char)
      (pre @ ''places/ABC-123/services/456/events'' @ post) = Some ''ABC-123''"
    using re_search_skip [OF assms(1), of "CHR ''p''"
        "''laces/ABC-123/services/456/events'' @ post"]
      place_in_segment [of post]
    by (simp add: is_place_char_def)
  have 2: "re_search (match_group ''services/'' is_digit_char)
      (pre @ ''places/ABC-123/services/456/events'' @ post) = Some ''456''"
    using re_search_skip [OF assms(2), of "CHR ''p''"
        "''laces/ABC-123/services/456/events'' @ post"]
      service_in_segment [of post]
    by (simp add: is_digit_char_def)
  show ?thesis
    unfolding extract_ids_from_curl_def Let_def 1 2
    by (simp split: option.splits)
qed

lemma re_search_group_nonempty:
  "re_search (match_group lit cls) s = Some g \<Longrightarrow> g \<noteq> []"
  by (induction s) (auto simp: match_group_def split: option.splits if_splits)

lemma extract_sources:
  assumes "extract_ids_from_curl pasted = (Some p, Some q)"
  shows "(case re_search (match_group ''places/'' is_place_char) pasted of
            Some g \<Rightarrow> p = g
          | None \<Rightarrow> (\<exists>h. re_search match_header pasted = Some h \<and> p = fst h))
       \<and> (case re_search (match_group ''services/'' is_digit_char) pasted of
            Some g \<Rightarrow> q = g
          | None \<Rightarrow> (\<exists>h. re_search match_header pasted = Some h \<and> q = snd h))"
  using assms re_search_group_nonempty [of "''places/''" is_place_char pasted]
    re_search_group_nonempty [of "''services/''" is_digit_char pasted]
  unfolding extract_ids_from_curl_def Let_def
  by (auto split: option.splits if_splits)

lemma curl_text_ids: "extract_ids_from_curl curl_text = (Some ''ABC-123'', Some ''456'')"
  by (simp add: curl_text_def extract_ids_from_curl_def match_group_def match_header_def
      is_place_char_def is_digit_char_def Let_def)

text \<open>
  C7, as the claim states it: every text that contains the segment
  \<open>places/ABC-123/services/456/events\<close> yields the pair \<open>ABC-123\<close>, \<open>456\<close>. This fails:
  \<open>re.search\<close> takes the leftmost match of each pattern, and the text may hold an earlier
  one.
\<close>

theorem earlier_match_wins:
  "is_substring url_segment earlier_match_text
   \<and> extract_ids_from_curl earlier_match_text = (Some ''0'', Some ''456'')
   \<and> extract_ids_from_curl earlier_match_text \<noteq> (Some ''ABC-123'', Some ''456'')"
  by (simp add: url_segment_def earlier_match_text_def extract_ids_from_curl_def
      match_group_def match_header_def is_place_char_def is_digit_char_def Let_def)

text \<open>
  C7, amended: for every text that holds the segment
  \<open>places/ABC-123/services/456/events\<close> after a part in which neither URL pattern
  matches, extraction yields the pair \<open>ABC-123\<close>, \<open>456\<close>. For every text, when extraction
  yields a pair, the place id is the group of the leftmost match of
  \<open>places/([0-9A-F-]+)\<close> and the service id the group of the leftmost match of
  \<open>services/([0-9]+)\<close>, and the header pattern gives only the identifier whose URL
  pattern has no match.
\<close>

theorem extract_ids_from_curl_segment:
  "(re_search (match_group ''places/'' is_place_char) pre = None
    \<and> re_search (match_group ''services/'' is_digit_char) pre = None
    \<longrightarrow> extract_ids_from_curl (pre @ url_segment @ post) = (Some ''ABC-123'', Some ''456''))
   \<and> (extract_ids_from_curl pasted = (Some p, Some q) \<longrightarrow>
        (case re_search (match_group ''places/'' is_place_char) pasted of
           Some g \<Rightarrow> p = g
         | None \<Rightarrow> (\<exists>h. re_search match_header pasted = Some h \<and> p = fst h))
      \<and> (case re_search (match_group ''services/'' is_digit_char) pasted of
           Some g \<Rightarrow> q = g
         | None \<Rightarrow> (\<exists>h. re_search match_header pasted = Some h \<and> q = snd h)))"
  using extract_segment [of pre post] extract_sources [of pasted p q]
  by (simp add: url_segment_def)

theorem extract_ids_from_curl_segment_witness:
  "re_search (match_group ''places/'' is_place_char) ''curl https://api.recollect.net/api/'' = None
   \<and> re_search (match_group ''services/'' is_digit_char) ''curl https://api.recollect.net/api/''
       = None
   \<and> extract_ids_from_curl (''curl https://api.recollect.net/api/'' @ url_segment @ ''?nomerge=1'')
       = (Some ''ABC-123'', Some ''456'')
   \<and> extract_ids_from_curl header_text = (Some ''AB-1'', Some ''77'')
   \<and> re_search (match_group ''places/'' is_place_char) header_text = None
   \<and> re_search match_header header_text = Some (''AB-1'', ''77'')"
proof -
  have a: "re_search (match_group ''places/'' is_place_char)
      ''curl https://api.recollect.net/api/'' = None"
    by (simp add: match_group_def)
  have b: "re_search (match_group ''services/'' is_digit_char)
      ''curl https://api.recollect.net/api/'' = None"
    by (simp add: match_group_def)
  have c: "extract_ids_from_curl header_text = (Some ''AB-1'', Some ''77'')"
    by (simp add: header_text_def extract_ids_from_curl_def match_group_def match_header_def
        is_place_char_def is_digit_char_def is_space_char_def Let_def)
  have d: "re_search (match_group ''places/'' is_place_char) header_text = None"
    by (simp add: header_text_def match_group_def)
  have e: "re_search match_header header_text = Some (''AB-1'', ''77'')"
    by (simp add: header_text_def match_header_def is_place_char_def is_digit_char_def
        is_space_char_def Let_def)
  show ?thesis
    using extract_ids_from_curl_segment
      [of "''curl https://api.recollect.net/api/''" "''?nomerge=1''" header_text "''AB-1''" "''77''"]
      a b c d e
    by simp
qed

section \<open>Properties of the ID extraction helper\<close>

lemma map_of_dict_set_same: "map_of (dict_set k v kvs) k = Some v"
  by (induction kvs) auto

lemma map_of_dict_set_other: "k' \<noteq> k \<Longrightarrow> map_of (dict_set k v kvs) k' = map_of kvs k'"
  by (induction kvs) auto

lemma filter_dict_set:
  "filter (\<lambda>kv. fst kv \<noteq> k) (dict_set k v kvs) = filter (\<lambda>kv. fst kv \<noteq> k) kvs"
  by (induction kvs) auto

lemma extract_ids_failure:
  assumes "read_lines (stdin w) [] = (Inr ls, rest)"
    and "extract_ids_from_curl (join_lines ls) = (None, None)"
  shows "extract_ids w =
      (Inr (), w\<lparr>stdin := rest,
         log := log w @ map Print (prompts @
           [CHR 0x0A # ''Could not extract the IDs from the provided curl command.'',
            ''Please make sure you copied a valid curl command from the ReCollect API.''])\<rparr>)"
  using assms by (simp add: extract_ids_def say_def prompts_def Let_def)

lemma extract_ids_eof:
  assumes "read_lines (stdin w) [] = (Inl e, rest)"
  shows "extract_ids w
         = (Inl (Uncaught e), w\<lparr>stdin := rest, log := log w @ map Print prompts\<rparr>)"
  using assms by (simp add: extract_ids_def say_def prompts_def Let_def)

lemma extract_ids_success:
  assumes "read_lines (stdin w) [] = (Inr ls, rest)"
    and "extract_ids_from_curl (join_lines ls) = (Some p, Some q)"
    and "p \<noteq> []" "q \<noteq> []"
  shows "extract_ids w =
      (case updated_config (config_file w) (Some p) (Some q) of
         Inl e \<Rightarrow>
           (Inr (), w\<lparr>stdin := rest,
              log := log w @ map Print (prompts @
                [CHR 0x0A # ''Extracted IDs:'', ''place_id: '' @ p, ''service_id: '' @ q,
                 ''Error updating config file: {e}''])\<rparr>)
       | Inr config \<Rightarrow>
           (Inr (), w\<lparr>stdin := rest, config_file := Some (Document config),
              log := log w @ map Print (prompts @
                [CHR 0x0A # ''Extracted IDs:'', ''place_id: '' @ p, ''service_id: '' @ q,
                 CHR 0x0A # ''Updated config file with these IDs: {CONFIG_FILE}''])\<rparr>))"
  using assms by (simp add: extract_ids_def say_def prompts_def Let_def split: sum.splits)

lemma updated_config_Inr:
  assumes "updated_config file (Some p) (Some q) = Inr config"
  shows "\<exists>kvs. config = JObj (dict_set ''recollect'' (id_pair p q) kvs)
           \<and> (file = None \<and> JObj kvs = fresh_config \<or> file = Some (Document (JObj kvs)))"
  using assms
  by (auto simp: updated_config_def py_setitem_def id_pair_def fresh_config_def
      split: option.splits file_content.splits json.splits)

lemma extract_ids_file:
  "config_file (snd (extract_ids w)) = config_file w
   \<or> (\<exists>kvs p q. config_file (snd (extract_ids w)) = Some (Document (JObj kvs))
         \<and> map_of kvs ''recollect'' = Some (id_pair p q) \<and> p \<noteq> [] \<and> q \<noteq> [])"
proof (cases "read_lines (stdin w) []")
  case (Pair r rest)
  show ?thesis
  proof (cases r)
    case (Inl e)
    with Pair show ?thesis by (simp add: extract_ids_eof)
  next
    case (Inr ls)
    from extract_all_or_nothing [of "join_lines ls"] show ?thesis
    proof
      assume "extract_ids_from_curl (join_lines ls) = (None, None)"
      with Pair Inr show ?thesis by (simp add: extract_ids_failure)
    next
      assume "\<exists>p q. extract_ids_from_curl (join_lines ls) = (Some p, Some q)
          \<and> p \<noteq> [] \<and> q \<noteq> []"
      then obtain p q where pq: "extract_ids_from_curl (join_lines ls) = (Some p, Some q)"
        "p \<noteq> []" "q \<noteq> []" by blast
      note run = extract_ids_success [OF _ pq, of w rest]
      show ?thesis
      proof (cases "updated_config (config_file w) (Some p) (Some q)")
        case (Inl e)
        with Pair Inr run show ?thesis by simp
      next
        case upd: (Inr config)
        from updated_config_Inr [OF upd] obtain kvs
          where "config = JObj (dict_set ''recollect'' (id_pair p q) kvs)" by blast
        with Pair Inr run upd pq(2,3) show ?thesis
          by (auto simp: map_of_dict_set_same)
      qed
    qed
  qed
qed

lemma paste_read: "read_lines (stdin (paste_world curl_text f)) [] = (Inr [curl_text], [])"
  by (simp add: paste_world_def curl_text_def is_space_char_def)

lemma paste_run:
  "extract_ids (paste_world curl_text f) =
     (case updated_config f (Some ''ABC-123'') (Some ''456'') of
        Inl e \<Rightarrow>
          (Inr (), \<lparr>config_file = f, stdin = [],
             log = map Print (prompts @
               [CHR 0x0A # ''Extracted IDs:'', ''place_id: ABC-123'', ''service_id: 456'',
                ''Error updating config file: {e}''])\<rparr>)
      | Inr config \<Rightarrow>
          (Inr (), \<lparr>config_file = Some (Document config), stdin = [],
             log = map Print (prompts @
               [CHR 0x0A # ''Extracted IDs:'', ''place_id: ABC-123'', ''service_id: 456'',
                CHR 0x0A # ''Updated config file with these IDs: {CONFIG_FILE}''])\<rparr>))"
  using extract_ids_success [OF paste_read [of f], of "''ABC-123''" "''456''"] curl_text_ids
  by (simp add: paste_world_def split: sum.splits)

text \<open>
  C10: \<open>extract_ids_from_curl\<close> returns both identifiers, each non-empty, or the pair
  \<open>(None, None)\<close>, never exactly one identifier; and a run of the helper leaves the
  configuration file as it was or stores a \<open>recollect\<close> record with both identifiers,
  each non-empty.
\<close>

theorem extract_ids_from_curl_all_or_nothing:
  "(extract_ids_from_curl s = (None, None)
    \<or> (\<exists>p q. extract_ids_from_curl s = (Some p, Some q) \<and> p \<noteq> [] \<and> q \<noteq> []))
   \<and> (config_file (snd (extract_ids w)) = config_file w
      \<or> (\<exists>kvs p q. config_file (snd (extract_ids w)) = Some (Document (JObj kvs))
            \<and> map_of kvs ''recollect'' = Some (id_pair p q) \<and> p \<noteq> [] \<and> q \<noteq> []))"
  using extract_all_or_nothing [of s] extract_ids_file [of w] by simp

theorem extract_ids_from_curl_all_or_nothing_witness:
  "extract_ids_from_curl ''curl https://example.org/places/AB/'' = (None, None)
   \<and> config_file (snd (extract_ids (paste_world ''curl https://example.org/places/AB/'' None)))
       = None"
proof -
  have a: "extract_ids_from_curl ''curl https://example.org/places/AB/'' = (None, None)"
    by (simp add: extract_ids_from_curl_def match_group_def match_header_def is_place_char_def
        is_digit_char_def Let_def)
  have b: "read_lines (stdin (paste_world ''curl https://example.org/places/AB/'' None)) []
      = (Inr [''curl https://example.org/places/AB/''], [])"
    by (simp add: paste_world_def is_space_char_def)
  have c: "config_file (snd (extract_ids (paste_world ''curl https://example.org/places/AB/'' None)))
      = None"
    using extract_ids_failure [OF b] a by (simp add: paste_world_def)
  show ?thesis
    using extract_ids_from_curl_all_or_nothing
      [of "''curl https://example.org/places/AB/''"
          "paste_world ''curl https://example.org/places/AB/'' None"] a c
    by simp
qed

text \<open>
  C8: when the input loop has read the pasted lines and extraction does not recover both
  identifiers, \<open>extract_ids\<close> prints that the IDs could not be extracted, returns
  normally, and leaves the configuration file as it was (absent if it was absent). When
  the input ends before a blank line, the file is left as it was as well.
\<close>

theorem extract_ids_failure_keeps_file:
  "(read_lines (stdin w) [] = (Inr ls, rest)
    \<and> extract_ids_from_curl (join_lines ls) = (None, None)
    \<longrightarrow> fst (extract_ids w) = Inr ()
      \<and> config_file (snd (extract_ids w)) = config_file w
      \<and> log (snd (extract_ids w)) = log w @ map Print (prompts @
          [CHR 0x0A # ''Could not extract the IDs from the provided curl command.'',
           ''Please make sure you copied a valid curl command from the ReCollect API.'']))
   \<and> (read_lines (stdin w) [] = (Inl e, rest)
      \<longrightarrow> config_file (snd (extract_ids w)) = config_file w)"
  using extract_ids_failure [of w ls rest] extract_ids_eof [of w e rest] by simp

theorem extract_ids_failure_keeps_file_witness:
  "read_lines (stdin (paste_world ''no identifiers here'' None)) []
     = (Inr [''no identifiers here''], [])
   \<and> extract_ids_from_curl (join_lines [''no identifiers here'']) = (None, None)
   \<and> fst (extract_ids (paste_world ''no identifiers here'' None)) = Inr ()
   \<and> config_file (snd (extract_ids (paste_world ''no identifiers here'' None))) = None
   \<and> read_lines (stdin \<lparr>config_file = None, stdin = [''unfinished''], log = []\<rparr>) []
       = (Inl EOFError, [])
   \<and> config_file (snd (extract_ids \<lparr>config_file = None, stdin = [''unfinished''], log = []\<rparr>))
       = None"
proof -
  have a: "read_lines (stdin (paste_world ''no identifiers here'' None)) []
      = (Inr [''no identifiers here''], [])"
    by (simp add: paste_world_def is_space_char_def)
  have b: "extract_ids_from_curl (join_lines [''no identifiers here'']) = (None, None)"
    by (simp add: extract_ids_from_curl_def match_group_def match_header_def Let_def)
  have c: "read_lines (stdin \<lparr>config_file = None, stdin = [''unfinished''], log = []\<rparr>) []
      = (Inl EOFError, [])"
    by (simp add: is_space_char_def)
  have d: "config_file (paste_world ''no identifiers here'' None) = None"
    by (simp add: paste_world_def)
  show ?thesis
    using extract_ids_failure_keeps_file
        [of "paste_world ''no identifiers here'' None" "[''no identifiers here'']" "[]"]
      extract_ids_failure_keeps_file
        [of "\<lparr>config_file = None, stdin = [''unfinished''], log = []\<rparr>" _ "[]" EOFError]
      a b c d
    by simp
qed

text \<open>
  C9, as the claim states it: after a successful extraction every field of the existing
  configuration other than the two identifiers is preserved, and the pair is merged into
  the file. This fails: the assignment replaces the whole \<open>recollect\<close> record, so a
  further field of that record is lost; and a file that does not parse is left as it is.
\<close>

theorem recollect_record_is_replaced:
  "py_path annotated_config [''recollect'', ''note''] JNull = Inr (JStr ''keep'')
   \<and> config_file (snd (extract_ids (paste_world curl_text (Some (Document annotated_config)))))
       = Some (Document
           (JObj [(''recollect'', JObj [(''place_id'', JStr ''ABC-123''),
                                        (''service_id'', JStr ''456'')]),
                  (''notifications'', JObj [(''ntfy'', JObj [(''enabled'', JBool True),
                                                            (''topic'', JStr ''bins'')])])]))
   \<and> py_path
        (JObj [(''recollect'', JObj [(''place_id'', JStr ''ABC-123''),
                                     (''service_id'', JStr ''456'')]),
               (''notifications'', JObj [(''ntfy'', JObj [(''enabled'', JBool True),
                                                         (''topic'', JStr ''bins'')])])])
        [''recollect'', ''note''] JNull = Inr JNull
   \<and> config_file (snd (extract_ids (paste_world curl_text (Some Unparseable))))
       = Some Unparseable"
  by (simp add: paste_run updated_config_def py_setitem_def annotated_config_def py_get_def)

text \<open>
  C9, amended: when extraction succeeds and the configuration file holds a JSON object,
  the file is rewritten with the \<open>recollect\<close> record replaced by exactly the extracted
  pair, and every other top-level field keeps its value and its place; when the file is
  absent it is created with the pair and the default notification settings.
\<close>

theorem extract_ids_merges_pair:
  assumes "read_lines (stdin w) [] = (Inr ls, rest)"
    and "extract_ids_from_curl (join_lines ls) = (Some p, Some q)"
  shows "fst (extract_ids w) = Inr ()
     \<and> (config_file w = None \<longrightarrow>
          config_file (snd (extract_ids w)) = Some (Document
            (JObj [(''recollect'', JObj [(''place_id'', JStr p), (''service_id'', JStr q)]),
                   (''notifications'',
                     JObj [(''pushover'', JObj [(''enabled'', JBool False),
                                                (''user_key'', JStr []), (''api_token'', JStr [])]),
                           (''ntfy'', JObj [(''enabled'', JBool False),
                                            (''topic'', JStr [])])])])))
     \<and> (\<forall>kvs. config_file w = Some (Document (JObj kvs)) \<longrightarrow>
          (\<exists>kvs'. config_file (snd (extract_ids w)) = Some (Document (JObj kvs'))
             \<and> map_of kvs' ''recollect''
                 = Some (JObj [(''place_id'', JStr p), (''service_id'', JStr q)])
             \<and> (\<forall>k. k \<noteq> ''recollect'' \<longrightarrow> map_of kvs' k = map_of kvs k)
             \<and> filter (\<lambda>kv. fst kv \<noteq> ''recollect'') kvs'
                 = filter (\<lambda>kv. fst kv \<noteq> ''recollect'') kvs))"
proof -
  from extract_all_or_nothing [of "join_lines ls"] assms(2)
  have ne: "p \<noteq> []" "q \<noteq> []" by auto
  note run = extract_ids_success [OF assms ne]
  have 1: "fst (extract_ids w) = Inr ()"
    using run by (simp split: sum.splits)
  have 2: "config_file w = None \<longrightarrow>
      config_file (snd (extract_ids w)) = Some (Document
        (JObj [(''recollect'', JObj [(''place_id'', JStr p), (''service_id'', JStr q)]),
               (''notifications'',
                 JObj [(''pushover'', JObj [(''enabled'', JBool False),
                                            (''user_key'', JStr []), (''api_token'', JStr [])]),
                       (''ntfy'', JObj [(''enabled'', JBool False), (''topic'', JStr [])])])]))"
    using run by (simp add: updated_config_def py_setitem_def fresh_config_def)
  have 3: "\<forall>kvs. config_file w = Some (Document (JObj kvs)) \<longrightarrow>
      (\<exists>kvs'. config_file (snd (extract_ids w)) = Some (Document (JObj kvs'))
         \<and> map_of kvs' ''recollect''
             = Some (JObj [(''place_id'', JStr p), (''service_id'', JStr q)])
         \<and> (\<forall>k. k \<noteq> ''recollect'' \<longrightarrow> map_of kvs' k = map_of kvs k)
         \<and> filter (\<lambda>kv. fst kv \<noteq> ''recollect'') kvs'
             = filter (\<lambda>kv. fst kv \<noteq> ''recollect'') kvs)"
    using run
    by (simp add: updated_config_def py_setitem_def map_of_dict_set_same
        map_of_dict_set_other filter_dict_set)
  from 1 2 3 show ?thesis by blast
qed

theorem extract_ids_merges_pair_witness:
  "read_lines (stdin (paste_world curl_text None)) [] = (Inr [curl_text], [])
   \<and> extract_ids_from_curl (join_lines [curl_text]) = (Some ''ABC-123'', Some ''456'')
   \<and> fst (extract_ids (paste_world curl_text None)) = Inr ()
   \<and> config_file (snd (extract_ids (paste_world curl_text None))) = Some (Document
        (JObj [(''recollect'', JObj [(''place_id'', JStr ''ABC-123''),
                                     (''service_id'', JStr ''456'')]),
               (''notifications'',
                 JObj [(''pushover'', JObj [(''enabled'', JBool False),
                                            (''user_key'', JStr []), (''api_token'', JStr [])]),
                       (''ntfy'', JObj [(''enabled'', JBool False), (''topic'', JStr [])])])]))
   \<and> fst (extract_ids (paste_world curl_text (Some (Document annotated_config)))) = Inr ()"
proof -
  have a: "extract_ids_from_curl (join_lines [curl_text]) = (Some ''ABC-123'', Some ''456'')"
    using curl_text_ids by simp
  have n: "config_file (paste_world curl_text None) = None"
    by (simp add: paste_world_def)
  show ?thesis
    using extract_ids_merges_pair [OF paste_read [of None] a]
      extract_ids_merges_pair [OF paste_read [of "Some (Document annotated_config)"] a]
      paste_read [of None] a n
    by simp
qed

section \<open>Facts about the sample inputs\<close>

lemma sample_config_ok: "check_config (notify_config a b) = (if a \<or> b then Inr Config_ok else Inr Nothing_enabled)"
  by (simp add: check_config_def notify_config_def py_get_def)

lemma sample_fetch:
  "get_collection_data (sample_env f d n) (notify_config a b) (sample_world c) =
     (case n (GetEvents (JStr ''ABC-123'') (JStr ''456'') ''2024-06-02'' ''2024-06-09'') of
          TransportError \<Rightarrow>
            (Inr JNull, \<lparr>config_file = c, stdin = [], log = [Sent (GetEvents (JStr ''ABC-123'') (JStr ''456'') ''2024-06-02'' ''2024-06-09''),
               Print ''Error fetching collection data: {e}'']\<rparr>)
        | HttpResponse status b \<Rightarrow>
            if raise_for_status status then
              (Inr JNull, \<lparr>config_file = c, stdin = [], log = [Sent (GetEvents (JStr ''ABC-123'') (JStr ''456'') ''2024-06-02'' ''2024-06-09''),
                 Print ''Error fetching collection data: {e}'']\<rparr>)
            else
              (case b of
                 JsonBody data \<Rightarrow>
                   (Inr data, \<lparr>config_file = c, stdin = [], log = [Sent (GetEvents (JStr ''ABC-123'') (JStr ''456'') ''2024-06-02'' ''2024-06-09'')]\<rparr>)
               | NotJson \<Rightarrow>
                     (Inr JNull, \<lparr>config_file = c, stdin = [], log = [Sent (GetEvents (JStr ''ABC-123'') (JStr ''456'') ''2024-06-02'' ''2024-06-09''),
                 Print ''Error fetching collection data: {e}'']\<rparr>)))"
  by (simp add: get_collection_data_def notify_config_def sample_env_def sample_world_def
      py_get_def send_def say_def split: http_outcome.splits body.splits)

lemma sample_paths:
  "py_path (notify_config a b) [''notifications'', ''pushover'', ''enabled''] (JBool False)
     = Inr (JBool a)"
  "py_path (notify_config a b) [''notifications'', ''ntfy'', ''enabled''] (JBool False)
     = Inr (JBool b)"
  by (simp_all add: notify_config_def py_get_def)

lemma sample_one_event:
  "filter (\<lambda>ev. event_day ev = JStr ''2024-06-03'') (payload_events sample_payload)
   = [JObj [(''day'', JStr ''2024-06-03''),
            (''flags'', JArr [JObj [(''subject'', JStr ''Garbage'')],
                             JObj [(''subject'', JStr ''Recycling'')],
                             JObj [(''subject'', JStr ''Garbage'')]])]]"
  by (simp add: sample_payload_def payload_events_def event_day_def)

lemma sample_clock:
  "arg_force (sample_env f d n) = f" "weekday (sample_env f d n) = d"
  "\<not> arg_extract_ids (sample_env f d n)" "\<not> arg_config_help (sample_env f d n)"
  "today (sample_env f d n) = ''2024-06-02''" "tomorrow (sample_env f d n) = ''2024-06-03''"
  "end_date (sample_env f d n) = ''2024-06-09''" "net (sample_env f d n) = n"
  "config_file (sample_world c) = c" "log (sample_world c) = []"
  by (simp_all add: sample_env_def sample_world_def)



section \<open>Properties of the notification dispatchers\<close>

lemma sent_requests_append [simp]:
  "sent_requests (a @ b) = sent_requests a @ sent_requests b"
  by (induction a rule: sent_requests.induct) auto

lemma sent_requests_prints [simp]: "sent_requests (map Print msgs) = []"
  by (induction msgs) auto

lemma py_join_comma: "py_join '', '' (map JStr types) = Inr (comma_joined types)"
  by (induction types rule: comma_joined.induct) auto

lemma compose_message:
  "(if map JStr types = [] then Inr ''No waste collection scheduled for tomorrow.''
    else (case py_join '', '' (map JStr types) of
            Inl err \<Rightarrow> Inl err
          | Inr joined \<Rightarrow> Inr (''Tomorrow's collection includes: '' @ joined @ ''.'')))
   = (Inr (expected_message types) :: py_error + string)"
  by (simp add: py_join_comma expected_message_def)

lemma py_path3:
  "py_path config [a, b, c] d =
     (case py_path config [a, b] (JObj []) of Inl e \<Rightarrow> Inl e | Inr s \<Rightarrow> py_get s c d)"
  by (simp split: sum.splits)

lemma send_pushover_enabled:
  assumes "py_path config [''notifications'', ''pushover'', ''enabled''] (JBool False) = Inr v"
    and "truthy v"
  shows "\<exists>token user.
     py_path config [''notifications'', ''pushover'', ''api_token''] JNull = Inr token
     \<and> py_path config [''notifications'', ''pushover'', ''user_key''] JNull = Inr user
     \<and> send_pushover_notification e (map JStr types) config w
       = (case net e (PostPushover token user (expected_message types)) of
            TransportError \<Rightarrow>
              (Inr False, w\<lparr>log := log w @ [Sent (PostPushover token user (expected_message types)),
                 Print ''Error sending Pushover notification: {e}'']\<rparr>)
          | HttpResponse status b \<Rightarrow>
              if raise_for_status status then
                (Inr False, w\<lparr>log := log w @ [Sent (PostPushover token user (expected_message types)),
                   Print ''Error sending Pushover notification: {e}'']\<rparr>)
              else
                (Inr True, w\<lparr>log := log w @ [Sent (PostPushover token user (expected_message types)),
                   Print ''Pushover notification sent successfully'']\<rparr>))"
proof -
  from assms(1) obtain pc where pc: "py_path config [''notifications'', ''pushover''] (JObj []) = Inr pc"
    "py_get pc ''enabled'' (JBool False) = Inr v"
    unfolding py_path3 by (auto split: sum.splits)
  from pc(2) obtain kvs where kvs: "pc = JObj kvs" by (cases pc) (auto simp: py_get_def)
  show ?thesis
    unfolding py_path3 send_pushover_notification_def compose_message
    using pc kvs assms(2)
    by (auto simp: py_get_def send_def say_def split: http_outcome.splits)
qed

lemma send_pushover_disabled:
  assumes "py_path config [''notifications'', ''pushover'', ''enabled''] (JBool False) = Inr v"
    and "\<not> truthy v"
  shows "send_pushover_notification e cts config w = (Inr False, w)"
  using assms unfolding py_path3 send_pushover_notification_def
  by (auto split: sum.splits)

lemma send_ntfy_enabled:
  assumes "py_path config [''notifications'', ''ntfy'', ''enabled''] (JBool False) = Inr v"
    and "truthy v"
  shows "\<exists>topic.
     py_path config [''notifications'', ''ntfy'', ''topic''] JNull = Inr topic
     \<and> send_ntfy_notification e (map JStr types) config w
       = (case net e (PostNtfy topic (expected_message types)) of
            TransportError \<Rightarrow>
              (Inr False, w\<lparr>log := log w @ [Sent (PostNtfy topic (expected_message types)),
                 Print ''Error sending ntfy.sh notification: {e}'']\<rparr>)
          | HttpResponse status b \<Rightarrow>
              if raise_for_status status then
                (Inr False, w\<lparr>log := log w @ [Sent (PostNtfy topic (expected_message types)),
                   Print ''Error sending ntfy.sh notification: {e}'']\<rparr>)
              else
                (Inr True, w\<lparr>log := log w @ [Sent (PostNtfy topic (expected_message types)),
                   Print ''ntfy.sh notification sent successfully'']\<rparr>))"
proof -
  from assms(1) obtain pc where pc: "py_path config [''notifications'', ''ntfy''] (JObj []) = Inr pc"
    "py_get pc ''enabled'' (JBool False) = Inr v"
    unfolding py_path3 by (auto split: sum.splits)
  from pc(2) obtain kvs where kvs: "pc = JObj kvs" by (cases pc) (auto simp: py_get_def)
  show ?thesis
    unfolding py_path3 send_ntfy_notification_def compose_message
    using pc kvs assms(2)
    by (auto simp: py_get_def send_def say_def split: http_outcome.splits)
qed

lemma send_ntfy_disabled:
  assumes "py_path config [''notifications'', ''ntfy'', ''enabled''] (JBool False) = Inr v"
    and "\<not> truthy v"
  shows "send_ntfy_notification e cts config w = (Inr False, w)"
  using assms unfolding py_path3 send_ntfy_notification_def
  by (auto split: sum.splits)

text \<open>
  C2: for every list of collection types, a dispatcher that is enabled sends exactly one
  request, and its message is \<open>No waste collection scheduled for tomorrow.\<close> when the list
  is empty and otherwise \<open>Tomorrow's collection includes: \<close> followed by the types joined
  with a comma and a space, and a full stop.
\<close>

theorem dispatchers_compose_message:
  "(py_path config [''notifications'', ''pushover'', ''enabled''] (JBool False) = Inr v
    \<and> truthy v \<longrightarrow>
      (\<exists>token user.
         sent_requests (log (snd (send_pushover_notification e (map JStr types) config w)))
         = sent_requests (log w) @
             [PostPushover token user
               (if types = [] then ''No waste collection scheduled for tomorrow.''
                else ''Tomorrow's collection includes: '' @ comma_joined types @ ''.'')]))
   \<and> (py_path config [''notifications'', ''ntfy'', ''enabled''] (JBool False) = Inr v'
      \<and> truthy v' \<longrightarrow>
      (\<exists>topic.
         sent_requests (log (snd (send_ntfy_notification e (map JStr types) config w)))
         = sent_requests (log w) @
             [PostNtfy topic
               (if types = [] then ''No waste collection scheduled for tomorrow.''
                else ''Tomorrow's collection includes: '' @ comma_joined types @ ''.'')]))"
proof (intro conjI impI)
  assume a: "py_path config [''notifications'', ''pushover'', ''enabled''] (JBool False) = Inr v
    \<and> truthy v"
  from send_pushover_enabled [of config v e types w] a obtain token user where
    run: "send_pushover_notification e (map JStr types) config w
       = (case net e (PostPushover token user (expected_message types)) of
            TransportError \<Rightarrow>
              (Inr False, w\<lparr>log := log w @ [Sent (PostPushover token user (expected_message types)),
                 Print ''Error sending Pushover notification: {e}'']\<rparr>)
          | HttpResponse status b \<Rightarrow>
              if raise_for_status status then
                (Inr False, w\<lparr>log := log w @ [Sent (PostPushover token user (expected_message types)),
                   Print ''Error sending Pushover notification: {e}'']\<rparr>)
              else
                (Inr True, w\<lparr>log := log w @ [Sent (PostPushover token user (expected_message types)),
                   Print ''Pushover notification sent successfully'']\<rparr>))"
    by blast
  have "sent_requests (log (snd (send_pushover_notification e (map JStr types) config w)))
      = sent_requests (log w) @ [PostPushover token user (expected_message types)]"
    unfolding run by (simp split: http_outcome.splits)
  then show "\<exists>token user.
      sent_requests (log (snd (send_pushover_notification e (map JStr types) config w)))
      = sent_requests (log w) @
          [PostPushover token user
            (if types = [] then ''No waste collection scheduled for tomorrow.''
             else ''Tomorrow's collection includes: '' @ comma_joined types @ ''.'')]"
    unfolding expected_message_def by blast
next
  assume a: "py_path config [''notifications'', ''ntfy'', ''enabled''] (JBool False) = Inr v'
    \<and> truthy v'"
  from send_ntfy_enabled [of config v' e types w] a obtain topic where
    run: "send_ntfy_notification e (map JStr types) config w
       = (case net e (PostNtfy topic (expected_message types)) of
            TransportError \<Rightarrow>
              (Inr False, w\<lparr>log := log w @ [Sent (PostNtfy topic (expected_message types)),
                 Print ''Error sending ntfy.sh notification: {e}'']\<rparr>)
          | HttpResponse status b \<Rightarrow>
              if raise_for_status status then
                (Inr False, w\<lparr>log := log w @ [Sent (PostNtfy topic (expected_message types)),
                   Print ''Error sending ntfy.sh notification: {e}'']\<rparr>)
              else
                (Inr True, w\<lparr>log := log w @ [Sent (PostNtfy topic (expected_message types)),
                   Print ''ntfy.sh notification sent successfully'']\<rparr>))"
    by blast
  have "sent_requests (log (snd (send_ntfy_notification e (map JStr types) config w)))
      = sent_requests (log w) @ [PostNtfy topic (expected_message types)]"
    unfolding run by (simp split: http_outcome.splits)
  then show "\<exists>topic.
      sent_requests (log (snd (send_ntfy_notification e (map JStr types) config w)))
      = sent_requests (log w) @
          [PostNtfy topic
            (if types = [] then ''No waste collection scheduled for tomorrow.''
             else ''Tomorrow's collection includes: '' @ comma_joined types @ ''.'')]"
    unfolding expected_message_def by blast
qed

theorem dispatchers_compose_message_witness:
  "py_path (notify_config True True) [''notifications'', ''pushover'', ''enabled''] (JBool False)
     = Inr (JBool True)
   \<and> py_path (notify_config True True) [''notifications'', ''ntfy'', ''enabled''] (JBool False)
     = Inr (JBool True)
   \<and> (\<exists>token user.
        sent_requests (log (snd (send_pushover_notification (sample_env False 6 net_ok)
          (map JStr [''Garbage'', ''Recycling'']) (notify_config True True) (sample_world None))))
        = [PostPushover token user ''Tomorrow's collection includes: Garbage, Recycling.''])
   \<and> (\<exists>topic.
        sent_requests (log (snd (send_ntfy_notification (sample_env False 6 net_ok)
          (map JStr []) (notify_config True True) (sample_world None))))
        = [PostNtfy topic ''No waste collection scheduled for tomorrow.''])"
  using dispatchers_compose_message
      [of "notify_config True True" "JBool True" "sample_env False 6 net_ok"
          "[''Garbage'', ''Recycling'']" "sample_world None" "JBool True"]
    dispatchers_compose_message
      [of "notify_config True True" "JBool True" "sample_env False 6 net_ok"
          "[]" "sample_world None" "JBool True"]
  by (simp add: sample_paths sample_clock del: py_path.simps)

section \<open>Properties of the configuration checks\<close>

lemma py_path2_Inr:
  "py_path config [a, b] d = Inr v \<Longrightarrow>
   \<exists>kvs n. config = JObj kvs \<and> (case map_of kvs a of None \<Rightarrow> JObj [] | Some x \<Rightarrow> x) = JObj n
     \<and> v = (case map_of n b of None \<Rightarrow> d | Some x \<Rightarrow> x)"
  by (cases config; cases "py_get config a (JObj [])")
     (auto simp: py_get_def split: json.splits sum.splits)

lemma py_path3_Inr:
  "py_path config [a, b, c] d = Inr v \<Longrightarrow>
   \<exists>kvs n s. config = JObj kvs
     \<and> (case map_of kvs a of None \<Rightarrow> JObj [] | Some x \<Rightarrow> x) = JObj n
     \<and> (case map_of n b of None \<Rightarrow> JObj [] | Some x \<Rightarrow> x) = JObj s
     \<and> v = (case map_of s c of None \<Rightarrow> d | Some x \<Rightarrow> x)"
proof -
  assume a: "py_path config [a, b, c] d = Inr v"
  then obtain s' where s': "py_path config [a, b] (JObj []) = Inr s'" "py_get s' c d = Inr v"
    by (auto split: sum.splits)
  from py_path2_Inr [OF s'(1)] obtain kvs n where
    k: "config = JObj kvs" "(case map_of kvs a of None \<Rightarrow> JObj [] | Some x \<Rightarrow> x) = JObj n"
    "s' = (case map_of n b of None \<Rightarrow> JObj [] | Some x \<Rightarrow> x)" by blast
  from s'(2) obtain s where s: "s' = JObj s" "v = (case map_of s c of None \<Rightarrow> d | Some x \<Rightarrow> x)"
    by (cases s') (auto simp: py_get_def)
  have "(case map_of n b of None \<Rightarrow> JObj [] | Some x \<Rightarrow> x) = JObj s"
    using k(3) s(1) by simp
  with k(1,2) s(2) show ?thesis by blast
qed

lemma config_ok_facts:
  assumes "check_config config = Inr Config_ok"
  shows "\<exists>pid sid pe ne.
     py_path config [''recollect'', ''place_id''] JNull = Inr pid \<and> truthy pid
     \<and> py_path config [''recollect'', ''service_id''] JNull = Inr sid \<and> truthy sid
     \<and> py_path config [''notifications'', ''pushover'', ''enabled''] (JBool False) = Inr pe
     \<and> py_path config [''notifications'', ''ntfy'', ''enabled''] (JBool False) = Inr ne
     \<and> (truthy pe \<or> truthy ne)
     \<and> (truthy pe \<longrightarrow>
          (\<exists>u t. py_path config [''notifications'', ''pushover'', ''user_key''] JNull = Inr u
             \<and> truthy u
             \<and> py_path config [''notifications'', ''pushover'', ''api_token''] JNull = Inr t
             \<and> truthy t))
     \<and> (truthy ne \<longrightarrow>
          (\<exists>tp. py_path config [''notifications'', ''ntfy'', ''topic''] JNull = Inr tp
             \<and> truthy tp))"
proof -
  obtain pid where pid: "py_path config [''recollect'', ''place_id''] JNull = Inr pid"
    using assms unfolding check_config_def
    by (cases "py_path config [''recollect'', ''place_id''] JNull") auto
  have tpid: "truthy pid"
    using assms pid unfolding check_config_def by (auto split: if_splits)
  obtain sid where sid: "py_path config [''recollect'', ''service_id''] JNull = Inr sid"
    using assms pid tpid unfolding check_config_def
    by (cases "py_path config [''recollect'', ''service_id''] JNull") auto
  have tsid: "truthy sid"
    using assms pid tpid sid unfolding check_config_def by (auto split: if_splits)
  obtain pe where pe:
    "py_path config [''notifications'', ''pushover'', ''enabled''] (JBool False) = Inr pe"
    using assms pid tpid sid tsid unfolding check_config_def
    by (cases "py_path config [''notifications'', ''pushover'', ''enabled''] (JBool False)") auto
  obtain ne where ne:
    "py_path config [''notifications'', ''ntfy'', ''enabled''] (JBool False) = Inr ne"
    using assms pid tpid sid tsid pe unfolding check_config_def
    by (cases "py_path config [''notifications'', ''ntfy'', ''enabled''] (JBool False)") auto
  have rest: "(truthy pe \<or> truthy ne)
     \<and> (truthy pe \<longrightarrow>
          (\<exists>u t. py_path config [''notifications'', ''pushover'', ''user_key''] JNull = Inr u
             \<and> truthy u
             \<and> py_path config [''notifications'', ''pushover'', ''api_token''] JNull = Inr t
             \<and> truthy t))
     \<and> (truthy ne \<longrightarrow>
          (\<exists>tp. py_path config [''notifications'', ''ntfy'', ''topic''] JNull = Inr tp
             \<and> truthy tp))"
    using assms pid tpid sid tsid pe ne unfolding check_config_def
    by (cases "py_path config [''notifications'', ''pushover'', ''user_key''] JNull";
        cases "py_path config [''notifications'', ''pushover'', ''api_token''] JNull";
        cases "py_path config [''notifications'', ''ntfy'', ''topic''] JNull")
       (auto split: if_splits)
  from pid tpid sid tsid pe ne rest show ?thesis by blast
qed

lemma py_get_JObj: "py_get (JObj kvs) k d = Inr (dict_get kvs k d)"
  by (simp add: py_get_def dict_get_def)

lemma py_path2_shape:
  "py_path config [a, b] d = Inr v \<Longrightarrow>
   \<exists>kvs n. config = JObj kvs \<and> dict_get kvs a (JObj []) = JObj n \<and> v = dict_get n b d"
  using py_path2_Inr [of config a b d v] by (simp add: dict_get_def)

lemma py_path3_shape:
  "py_path config [a, b, c] d = Inr v \<Longrightarrow>
   \<exists>kvs n s. config = JObj kvs \<and> dict_get kvs a (JObj []) = JObj n
     \<and> dict_get n b (JObj []) = JObj s \<and> v = dict_get s c d"
  using py_path3_Inr [of config a b c d v] by (simp add: dict_get_def)

lemma config_ok_shape:
  assumes "check_config config = Inr Config_ok"
  shows "\<exists>kvs rc n ps ns.
     config = JObj kvs
     \<and> dict_get kvs ''recollect'' (JObj []) = JObj rc
     \<and> dict_get kvs ''notifications'' (JObj []) = JObj n
     \<and> dict_get n ''pushover'' (JObj []) = JObj ps
     \<and> dict_get n ''ntfy'' (JObj []) = JObj ns
     \<and> truthy (dict_get rc ''place_id'' JNull)
     \<and> truthy (dict_get rc ''service_id'' JNull)
     \<and> (truthy (dict_get ps ''enabled'' (JBool False))
         \<or> truthy (dict_get ns ''enabled'' (JBool False)))
     \<and> (truthy (dict_get ps ''enabled'' (JBool False)) \<longrightarrow>
          truthy (dict_get ps ''user_key'' JNull) \<and> truthy (dict_get ps ''api_token'' JNull))
     \<and> (truthy (dict_get ns ''enabled'' (JBool False)) \<longrightarrow>
          truthy (dict_get ns ''topic'' JNull))"
proof -
  from config_ok_facts [OF assms] obtain pid sid pe ne where f:
    "py_path config [''recollect'', ''place_id''] JNull = Inr pid" "truthy pid"
    "py_path config [''recollect'', ''service_id''] JNull = Inr sid" "truthy sid"
    "py_path config [''notifications'', ''pushover'', ''enabled''] (JBool False) = Inr pe"
    "py_path config [''notifications'', ''ntfy'', ''enabled''] (JBool False) = Inr ne"
    "truthy pe \<or> truthy ne"
    "truthy pe \<longrightarrow>
      (\<exists>u t. py_path config [''notifications'', ''pushover'', ''user_key''] JNull = Inr u
         \<and> truthy u
         \<and> py_path config [''notifications'', ''pushover'', ''api_token''] JNull = Inr t
         \<and> truthy t)"
    "truthy ne \<longrightarrow>
      (\<exists>tp. py_path config [''notifications'', ''ntfy'', ''topic''] JNull = Inr tp
         \<and> truthy tp)"
    by blast
  from py_path2_shape [OF f(1)] obtain kvs rc where
    a: "config = JObj kvs" "dict_get kvs ''recollect'' (JObj []) = JObj rc"
       "pid = dict_get rc ''place_id'' JNull" by blast
  from py_path3_shape [OF f(5)] a(1) obtain n ps where
    b: "dict_get kvs ''notifications'' (JObj []) = JObj n"
       "dict_get n ''pushover'' (JObj []) = JObj ps"
       "pe = dict_get ps ''enabled'' (JBool False)" by auto
  from py_path3_shape [OF f(6)] a(1) b(1) obtain ns where
    c: "dict_get n ''ntfy'' (JObj []) = JObj ns"
       "ne = dict_get ns ''enabled'' (JBool False)" by auto
  have sid: "sid = dict_get rc ''service_id'' JNull"
    using f(3) a(1,2) by (simp add: py_get_JObj)
  have pu: "truthy pe \<longrightarrow>
      truthy (dict_get ps ''user_key'' JNull) \<and> truthy (dict_get ps ''api_token'' JNull)"
    using f(8) a(1) b(1,2) by (auto simp: py_get_JObj)
  have nt: "truthy ne \<longrightarrow> truthy (dict_get ns ''topic'' JNull)"
    using f(9) a(1) b(1) c(1) by (auto simp: py_get_JObj)
  show ?thesis
    using a b c sid pu nt f(2,4,7) by blast
qed

lemma dict_get_enabled_True:
  "dict_get s ''enabled'' JNull = JBool True \<Longrightarrow> dict_get s ''enabled'' (JBool False) = JBool True"
  by (simp add: dict_get_def split: option.splits)

lemma validate_ok:
  assumes "check_config config = Inr Config_ok"
  shows "validate_notification_settings config w = (Inr True, w)"
proof -
  from config_ok_shape [OF assms] obtain kvs rc n ps ns where s:
    "config = JObj kvs"
    "dict_get kvs ''recollect'' (JObj []) = JObj rc"
    "dict_get kvs ''notifications'' (JObj []) = JObj n"
    "dict_get n ''pushover'' (JObj []) = JObj ps"
    "dict_get n ''ntfy'' (JObj []) = JObj ns"
    "truthy (dict_get ps ''enabled'' (JBool False)) \<longrightarrow>
       truthy (dict_get ps ''user_key'' JNull) \<and> truthy (dict_get ps ''api_token'' JNull)"
    "truthy (dict_get ns ''enabled'' (JBool False)) \<longrightarrow>
       truthy (dict_get ns ''topic'' JNull)"
    by blast
  have p: "dict_get ps ''enabled'' JNull = JBool True \<longrightarrow>
      truthy (dict_get ps ''user_key'' JNull) \<and> truthy (dict_get ps ''api_token'' JNull)"
    using s(6) dict_get_enabled_True [of ps] by auto
  have q: "dict_get ns ''enabled'' JNull = JBool True \<longrightarrow> truthy (dict_get ns ''topic'' JNull)"
    using s(7) dict_get_enabled_True [of ns] by auto
  show ?thesis
    unfolding validate_notification_settings_def
    using s(1,3,4,5) p q by (simp add: py_get_JObj)
qed

lemma get_collection_data_ok:
  assumes "check_config config = Inr Config_ok"
  shows "\<exists>pid sid. truthy pid \<and> truthy sid
     \<and> py_path config [''recollect'', ''place_id''] JNull = Inr pid
     \<and> py_path config [''recollect'', ''service_id''] JNull = Inr sid
     \<and> get_collection_data e config w =
       (case net e (GetEvents pid sid (today e) (end_date e)) of
          TransportError \<Rightarrow>
            (Inr JNull, w\<lparr>log := log w @ [Sent (GetEvents pid sid (today e) (end_date e)),
               Print ''Error fetching collection data: {e}'']\<rparr>)
        | HttpResponse status b \<Rightarrow>
            if raise_for_status status then
              (Inr JNull, w\<lparr>log := log w @ [Sent (GetEvents pid sid (today e) (end_date e)),
                 Print ''Error fetching collection data: {e}'']\<rparr>)
            else
              (case b of
                 JsonBody data \<Rightarrow>
                   (Inr data, w\<lparr>log := log w @ [Sent (GetEvents pid sid (today e) (end_date e))]\<rparr>)
               | NotJson \<Rightarrow>
                   if json_error_is_request_exception e then
                     (Inr JNull, w\<lparr>log := log w @ [Sent (GetEvents pid sid (today e) (end_date e)),
                        Print ''Error fetching collection data: {e}'']\<rparr>)
                   else
                     (Inl ValueError,
                      w\<lparr>log := log w @ [Sent (GetEvents pid sid (today e) (end_date e))]\<rparr>)))"
proof -
  from config_ok_shape [OF assms] obtain kvs rc where s:
    "config = JObj kvs"
    "dict_get kvs ''recollect'' (JObj []) = JObj rc"
    "truthy (dict_get rc ''place_id'' JNull)"
    "truthy (dict_get rc ''service_id'' JNull)"
    by blast
  show ?thesis
    unfolding get_collection_data_def
    using s
    by (auto simp: py_get_JObj send_def say_def split: http_outcome.splits body.splits)
qed

section \<open>Properties of a run\<close>

lemma load_config_ok:
  "config_file w = Some (Document config) \<Longrightarrow> check_config config = Inr Config_ok \<Longrightarrow>
   load_config w = (Inr config, w)"
  by (simp add: load_config_def)

lemma load_config_result:
  "(\<exists>config. config_file w = Some (Document config) \<and> check_config config = Inr Config_ok
      \<and> load_config w = (Inr config, w))
   \<or> (fst (load_config w) = Inl (SysExit 1)
        \<and> sent_requests (log (snd (load_config w))) = sent_requests (log w))"
  by (auto simp: load_config_def say_def
      split: option.splits file_content.splits sum.splits config_check.splits)

lemma normal_run_gate:
  assumes "config_file w = Some (Document config)" "check_config config = Inr Config_ok"
    and "\<not> arg_force e" "weekday e \<noteq> 6"
  shows "normal_run e w =
     (Inr (), w\<lparr>log := log w @ [Print ''Not running because today is not Sunday'',
        Print ''Use --force to run regardless of day'']\<rparr>)"
  using assms by (simp add: normal_run_def load_config_ok validate_ok say_def)

lemma normal_run_invalid:
  assumes "fst (load_config w) = Inl s"
  shows "normal_run e w = (Inl s, snd (load_config w))"
  using assms by (cases "load_config w") (simp add: normal_run_def)

lemma normal_run_no_fetch:
  assumes "\<not> arg_force e" "weekday e \<noteq> 6"
  shows "sent_requests (log (snd (normal_run e w))) = sent_requests (log w)"
  using load_config_result [of w]
proof
  assume "\<exists>config. config_file w = Some (Document config)
      \<and> check_config config = Inr Config_ok \<and> load_config w = (Inr config, w)"
  then obtain config where "config_file w = Some (Document config)"
    "check_config config = Inr Config_ok" by blast
  from normal_run_gate [OF this assms] show ?thesis by simp
next
  assume a: "fst (load_config w) = Inl (SysExit 1)
      \<and> sent_requests (log (snd (load_config w))) = sent_requests (log w)"
  then show ?thesis using normal_run_invalid [of w "SysExit 1" e] by simp
qed

lemma normal_run_after_gate:
  assumes "config_file w = Some (Document config)" "check_config config = Inr Config_ok"
    and "arg_force e \<or> weekday e = 6"
  shows "normal_run e w =
     (case get_collection_data e config w of
        (Inl err, w3) \<Rightarrow> (Inl (Uncaught err), w3)
      | (Inr collection_data, w3) \<Rightarrow>
     if \<not> truthy collection_data then
       (Inr (), say [''Failed to retrieve collection data''] w3)
     else
     (case get_tomorrow_collections (tomorrow e) collection_data of
        Inl err \<Rightarrow> (Inl (Uncaught err), w3)
      | Inr tomorrow_collections \<Rightarrow>
     (case send_pushover_notification e tomorrow_collections config w3 of
        (Inl err, w4) \<Rightarrow> (Inl (Uncaught err), w4)
      | (Inr pushover_success, w4) \<Rightarrow>
     (case send_ntfy_notification e tomorrow_collections config w4 of
        (Inl err, w5) \<Rightarrow> (Inl (Uncaught err), w5)
      | (Inr ntfy_success, w5) \<Rightarrow>
          (Inr (),
           if \<not> (pushover_success \<or> ntfy_success)
           then say [''Warning: No notifications were sent successfully''] w5
           else w5)))))"
  using assms by (auto simp add: normal_run_def load_config_ok validate_ok)

lemma pushover_step:
  assumes "py_path config [''notifications'', ''pushover'', ''enabled''] (JBool False) = Inr pe"
  shows "\<exists>ok token user out.
     send_pushover_notification e (map JStr types) config w
     = (Inr ok, if truthy pe
          then w\<lparr>log := log w @ [Sent (PostPushover token user (expected_message types)),
                 Print out]\<rparr>
          else w)
     \<and> (truthy pe \<longrightarrow>
          py_path config [''notifications'', ''pushover'', ''api_token''] JNull = Inr token
          \<and> py_path config [''notifications'', ''pushover'', ''user_key''] JNull = Inr user)"
proof (cases "truthy pe")
  case False
  with send_pushover_disabled [OF assms, of e "map JStr types" w] show ?thesis by auto
next
  case True
  from send_pushover_enabled [OF assms True, of e types w] obtain token user where
    a: "py_path config [''notifications'', ''pushover'', ''api_token''] JNull = Inr token"
       "py_path config [''notifications'', ''pushover'', ''user_key''] JNull = Inr user"
    and run: "send_pushover_notification e (map JStr types) config w
       = (case net e (PostPushover token user (expected_message types)) of
            TransportError \<Rightarrow>
              (Inr False, w\<lparr>log := log w @ [Sent (PostPushover token user (expected_message types)),
                 Print ''Error sending Pushover notification: {e}'']\<rparr>)
          | HttpResponse status b \<Rightarrow>
              if raise_for_status status then
                (Inr False, w\<lparr>log := log w @ [Sent (PostPushover token user (expected_message types)),
                   Print ''Error sending Pushover notification: {e}'']\<rparr>)
              else
                (Inr True, w\<lparr>log := log w @ [Sent (PostPushover token user (expected_message types)),
                   Print ''Pushover notification sent successfully'']\<rparr>))"
    by blast
  show ?thesis
    unfolding run using True a
    by (cases "net e (PostPushover token user (expected_message types))") auto
qed

lemma ntfy_step:
  assumes "py_path config [''notifications'', ''ntfy'', ''enabled''] (JBool False) = Inr ne"
  shows "\<exists>ok topic out.
     send_ntfy_notification e (map JStr types) config w
     = (Inr ok, if truthy ne
          then w\<lparr>log := log w @ [Sent (PostNtfy topic (expected_message types)), Print out]\<rparr>
          else w)
     \<and> (truthy ne \<longrightarrow> py_path config [''notifications'', ''ntfy'', ''topic''] JNull = Inr topic)"
proof (cases "truthy ne")
  case False
  with send_ntfy_disabled [OF assms, of e "map JStr types" w] show ?thesis by auto
next
  case True
  from send_ntfy_enabled [OF assms True, of e types w] obtain topic where
    a: "py_path config [''notifications'', ''ntfy'', ''topic''] JNull = Inr topic"
    and run: "send_ntfy_notification e (map JStr types) config w
       = (case net e (PostNtfy topic (expected_message types)) of
            TransportError \<Rightarrow>
              (Inr False, w\<lparr>log := log w @ [Sent (PostNtfy topic (expected_message types)),
                 Print ''Error sending ntfy.sh notification: {e}'']\<rparr>)
          | HttpResponse status b \<Rightarrow>
              if raise_for_status status then
                (Inr False, w\<lparr>log := log w @ [Sent (PostNtfy topic (expected_message types)),
                   Print ''Error sending ntfy.sh notification: {e}'']\<rparr>)
              else
                (Inr True, w\<lparr>log := log w @ [Sent (PostNtfy topic (expected_message types)),
                   Print ''ntfy.sh notification sent successfully'']\<rparr>))"
    by blast
  show ?thesis
    unfolding run using True a
    by (cases "net e (PostNtfy topic (expected_message types))") auto
qed


lemma get_collection_data_log:
  assumes "check_config config = Inr Config_ok"
  shows "\<exists>pid sid msgs.
     snd (get_collection_data e config w)
       = w\<lparr>log := log w @ Sent (GetEvents pid sid (today e) (end_date e)) # map Print msgs\<rparr>
     \<and> py_path config [''recollect'', ''place_id''] JNull = Inr pid
     \<and> py_path config [''recollect'', ''service_id''] JNull = Inr sid"
proof -
  from get_collection_data_ok [OF assms(1), of e w] obtain pid sid where
    p: "py_path config [''recollect'', ''place_id''] JNull = Inr pid"
       "py_path config [''recollect'', ''service_id''] JNull = Inr sid"
    and run: "get_collection_data e config w =
       (case net e (GetEvents pid sid (today e) (end_date e)) of
          TransportError \<Rightarrow>
            (Inr JNull, w\<lparr>log := log w @ [Sent (GetEvents pid sid (today e) (end_date e)),
               Print ''Error fetching collection data: {e}'']\<rparr>)
        | HttpResponse status b \<Rightarrow>
            if raise_for_status status then
              (Inr JNull, w\<lparr>log := log w @ [Sent (GetEvents pid sid (today e) (end_date e)),
                 Print ''Error fetching collection data: {e}'']\<rparr>)
            else
              (case b of
                 JsonBody data \<Rightarrow>
                   (Inr data, w\<lparr>log := log w @ [Sent (GetEvents pid sid (today e) (end_date e))]\<rparr>)
               | NotJson \<Rightarrow>
                   if json_error_is_request_exception e then
                     (Inr JNull, w\<lparr>log := log w @ [Sent (GetEvents pid sid (today e) (end_date e)),
                        Print ''Error fetching collection data: {e}'']\<rparr>)
                   else
                     (Inl ValueError,
                      w\<lparr>log := log w @ [Sent (GetEvents pid sid (today e) (end_date e))]\<rparr>)))"
    by blast
  have "\<exists>msgs. snd (get_collection_data e config w)
       = w\<lparr>log := log w @ Sent (GetEvents pid sid (today e) (end_date e)) # map Print msgs\<rparr>"
  proof (cases "net e (GetEvents pid sid (today e) (end_date e))")
    case TransportError
    then show ?thesis unfolding run
      by (auto intro: exI [of _ "[''Error fetching collection data: {e}'']"])
  next
    case (HttpResponse status b)
    then show ?thesis unfolding run
      by (cases b)
         (auto intro: exI [of _ "[''Error fetching collection data: {e}'']"] exI [of _ "[]"])
  qed
  with p show ?thesis by blast
qed


lemma normal_run_fetched:
  assumes cfg: "config_file w = Some (Document config)" "check_config config = Inr Config_ok"
    and gate: "arg_force e \<or> weekday e = 6"
    and fetch: "fst (get_collection_data e config w) = Inr data"
    and data: "wf_payload data" "truthy data"
    and pe: "py_path config [''notifications'', ''pushover'', ''enabled''] (JBool False) = Inr pe"
    and ne: "py_path config [''notifications'', ''ntfy'', ''enabled''] (JBool False) = Inr ne"
  shows "\<exists>pid sid token user topic.
     fst (normal_run e w) = Inr ()
     \<and> config_file (snd (normal_run e w)) = config_file w
     \<and> sent_requests (log (snd (normal_run e w)))
       = sent_requests (log w) @ [GetEvents pid sid (today e) (end_date e)]
         @ (if truthy pe
            then [PostPushover token user (expected_message (tomorrow_types (tomorrow e) data))]
            else [])
         @ (if truthy ne
            then [PostNtfy topic (expected_message (tomorrow_types (tomorrow e) data))]
            else [])"
proof -
  let ?types = "tomorrow_types (tomorrow e) data"
  from get_collection_data_log [OF cfg(2), of e w] obtain pid sid msgs where
    w3: "snd (get_collection_data e config w)
       = w\<lparr>log := log w @ Sent (GetEvents pid sid (today e) (end_date e)) # map Print msgs\<rparr>"
    by blast
  define w3 where
    "w3 = w\<lparr>log := log w @ Sent (GetEvents pid sid (today e) (end_date e)) # map Print msgs\<rparr>"
  have g: "get_collection_data e config w = (Inr data, w3)"
    using fetch w3 unfolding w3_def by (cases "get_collection_data e config w") simp
  have t: "get_tomorrow_collections (tomorrow e) data = Inr (map JStr ?types)"
    unfolding tomorrow_types_def by (rule get_tomorrow_collections_wf [OF data(1)])
  from pushover_step [OF pe, of e ?types w3] obtain ok1 token user out1 where
    p: "send_pushover_notification e (map JStr ?types) config w3
     = (Inr ok1, if truthy pe
          then w3\<lparr>log := log w3 @ [Sent (PostPushover token user (expected_message ?types)),
                 Print out1]\<rparr>
          else w3)" by blast
  define w4 where "w4 = (if truthy pe
          then w3\<lparr>log := log w3 @ [Sent (PostPushover token user (expected_message ?types)),
                 Print out1]\<rparr>
          else w3)"
  from ntfy_step [OF ne, of e ?types w4] obtain ok2 topic out2 where
    n: "send_ntfy_notification e (map JStr ?types) config w4
     = (Inr ok2, if truthy ne
          then w4\<lparr>log := log w4 @ [Sent (PostNtfy topic (expected_message ?types)), Print out2]\<rparr>
          else w4)" by blast
  define w5 where "w5 = (if truthy ne
          then w4\<lparr>log := log w4 @ [Sent (PostNtfy topic (expected_message ?types)), Print out2]\<rparr>
          else w4)"
  have run: "normal_run e w =
      (Inr (), if \<not> (ok1 \<or> ok2)
               then say [''Warning: No notifications were sent successfully''] w5 else w5)"
    unfolding normal_run_after_gate [OF cfg gate] g
    using data(2) t p n unfolding w4_def [symmetric] w5_def [symmetric]
    by simp
  have s5: "sent_requests (log w5)
      = sent_requests (log w) @ [GetEvents pid sid (today e) (end_date e)]
         @ (if truthy pe then [PostPushover token user (expected_message ?types)] else [])
         @ (if truthy ne then [PostNtfy topic (expected_message ?types)] else [])"
    unfolding w5_def w4_def w3_def by simp
  have c5: "config_file w5 = config_file w"
    unfolding w5_def w4_def w3_def by simp
  show ?thesis
    unfolding run using s5 c5 by (auto simp: say_def)
qed

lemma config_ok_acceptable:
  assumes "check_config config = Inr Config_ok"
  shows "acceptable_config config"
proof -
  from config_ok_facts [OF assms] obtain pid sid pe ne where f:
    "py_path config [''recollect'', ''place_id''] JNull = Inr pid" "truthy pid"
    "py_path config [''recollect'', ''service_id''] JNull = Inr sid" "truthy sid"
    "py_path config [''notifications'', ''pushover'', ''enabled''] (JBool False) = Inr pe"
    "py_path config [''notifications'', ''ntfy'', ''enabled''] (JBool False) = Inr ne"
    "truthy pe \<or> truthy ne"
    "truthy pe \<longrightarrow>
      (\<exists>u t. py_path config [''notifications'', ''pushover'', ''user_key''] JNull = Inr u
         \<and> truthy u
         \<and> py_path config [''notifications'', ''pushover'', ''api_token''] JNull = Inr t
         \<and> truthy t)"
    "truthy ne \<longrightarrow>
      (\<exists>tp. py_path config [''notifications'', ''ntfy'', ''topic''] JNull = Inr tp
         \<and> truthy tp)"
    by blast
  have 1: "truthy (config_value config [''recollect'', ''place_id''] JNull)"
    using f(1,2) by (simp add: config_value_def)
  have 2: "truthy (config_value config [''recollect'', ''service_id''] JNull)"
    using f(3,4) by (simp add: config_value_def)
  have 3: "config_value config [''notifications'', ''pushover'', ''enabled''] (JBool False) = pe"
    using f(5) by (simp add: config_value_def)
  have 4: "config_value config [''notifications'', ''ntfy'', ''enabled''] (JBool False) = ne"
    using f(6) by (simp add: config_value_def)
  have 5: "truthy pe \<longrightarrow>
      truthy (config_value config [''notifications'', ''pushover'', ''user_key''] JNull)
      \<and> truthy (config_value config [''notifications'', ''pushover'', ''api_token''] JNull)"
    using f(8) by (auto simp: config_value_def)
  have 6: "truthy ne \<longrightarrow>
      truthy (config_value config [''notifications'', ''ntfy'', ''topic''] JNull)"
    using f(9) by (auto simp: config_value_def)
  show ?thesis
    unfolding acceptable_config_def 3 4 using 1 2 5 6 f(7) by blast
qed

lemma main_normal:
  "\<not> arg_extract_ids e \<Longrightarrow> \<not> arg_config_help e \<Longrightarrow> main e w = normal_run e w"
  by (simp add: main_def)

lemma payload_events_truthy: "payload_events data \<noteq> [] \<Longrightarrow> truthy data"
  by (cases data) (auto simp: payload_events_def split: option.splits)

lemma invalid_config_run:
  assumes "config_file w = Some (Document config)" "\<not> acceptable_config config"
  shows "fst (load_config w) = Inl (SysExit 1)
     \<and> normal_run e w = (Inl (SysExit 1), snd (load_config w))
     \<and> sent_requests (log (snd (normal_run e w))) = sent_requests (log w)"
  using load_config_result [of w]
proof
  assume "\<exists>config. config_file w = Some (Document config)
      \<and> check_config config = Inr Config_ok \<and> load_config w = (Inr config, w)"
  with assms config_ok_acceptable show ?thesis by auto
next
  assume a: "fst (load_config w) = Inl (SysExit 1)
      \<and> sent_requests (log (snd (load_config w))) = sent_requests (log w)"
  then show ?thesis using normal_run_invalid [of w "SysExit 1" e] by simp
qed

text \<open>
  C3: in normal mode past the day gate, with a configuration that \<open>load_config\<close> accepts,
  Pushover enabled and ntfy disabled, and a fetched payload with exactly one event on
  tomorrow, the run issues the calendar request and then exactly one request, the
  Pushover one, and none to ntfy. A dispatcher whose enabled flag is false or missing
  sends nothing, returns \<open>False\<close> and raises no error.
\<close>

theorem pushover_only_run:
  "(\<not> arg_extract_ids e \<and> \<not> arg_config_help e \<and> (arg_force e \<or> weekday e = 6)
    \<and> config_file w = Some (Document config) \<and> check_config config = Inr Config_ok
    \<and> py_path config [''notifications'', ''pushover'', ''enabled''] (JBool False) = Inr pe
    \<and> truthy pe
    \<and> py_path config [''notifications'', ''ntfy'', ''enabled''] (JBool False) = Inr ne
    \<and> \<not> truthy ne
    \<and> fst (get_collection_data e config w) = Inr data \<and> wf_payload data
    \<and> filter (\<lambda>ev. event_day ev = JStr (tomorrow e)) (payload_events data) = [event]
    \<longrightarrow> (\<exists>pid sid token user.
          fst (main e w) = Inr ()
          \<and> sent_requests (log (snd (main e w)))
            = sent_requests (log w) @
                [GetEvents pid sid (today e) (end_date e),
                 PostPushover token user
                   (expected_message (tomorrow_types (tomorrow e) data))]))
   \<and> (py_path config [''notifications'', ''pushover'', ''enabled''] (JBool False) = Inr v
      \<and> \<not> truthy v
      \<longrightarrow> send_pushover_notification e cts config w = (Inr False, w))
   \<and> (py_path config [''notifications'', ''ntfy'', ''enabled''] (JBool False) = Inr v'
      \<and> \<not> truthy v'
      \<longrightarrow> send_ntfy_notification e cts config w = (Inr False, w))"
proof (intro conjI impI)
  assume a: "\<not> arg_extract_ids e \<and> \<not> arg_config_help e \<and> (arg_force e \<or> weekday e = 6)
    \<and> config_file w = Some (Document config) \<and> check_config config = Inr Config_ok
    \<and> py_path config [''notifications'', ''pushover'', ''enabled''] (JBool False) = Inr pe
    \<and> truthy pe
    \<and> py_path config [''notifications'', ''ntfy'', ''enabled''] (JBool False) = Inr ne
    \<and> \<not> truthy ne
    \<and> fst (get_collection_data e config w) = Inr data \<and> wf_payload data
    \<and> filter (\<lambda>ev. event_day ev = JStr (tomorrow e)) (payload_events data) = [event]"
  then have "payload_events data \<noteq> []" by auto
  then have t: "truthy data" by (rule payload_events_truthy)
  from a have m: "main e w = normal_run e w" by (simp add: main_normal)
  from a t normal_run_fetched [of w config e data pe ne]
  show "\<exists>pid sid token user.
          fst (main e w) = Inr ()
          \<and> sent_requests (log (snd (main e w)))
            = sent_requests (log w) @
                [GetEvents pid sid (today e) (end_date e),
                 PostPushover token user
                   (expected_message (tomorrow_types (tomorrow e) data))]"
    unfolding m by auto
next
  assume "py_path config [''notifications'', ''pushover'', ''enabled''] (JBool False) = Inr v
      \<and> \<not> truthy v"
  then show "send_pushover_notification e cts config w = (Inr False, w)"
    using send_pushover_disabled [of config v e cts w] by simp
next
  assume "py_path config [''notifications'', ''ntfy'', ''enabled''] (JBool False) = Inr v'
      \<and> \<not> truthy v'"
  then show "send_ntfy_notification e cts config w = (Inr False, w)"
    using send_ntfy_disabled [of config v' e cts w] by simp
qed

theorem pushover_only_run_witness:
  "check_config (notify_config True False) = Inr Config_ok
   \<and> fst (get_collection_data (sample_env False 6 net_ok) (notify_config True False)
        (sample_world (Some (Document (notify_config True False))))) = Inr sample_payload
   \<and> wf_payload sample_payload
   \<and> (\<exists>pid sid token user.
        fst (main (sample_env False 6 net_ok)
              (sample_world (Some (Document (notify_config True False))))) = Inr ()
        \<and> sent_requests (log (snd (main (sample_env False 6 net_ok)
              (sample_world (Some (Document (notify_config True False)))))))
          = [GetEvents pid sid ''2024-06-02'' ''2024-06-09'',
             PostPushover token user ''Tomorrow's collection includes: Garbage, Recycling.''])
   \<and> send_ntfy_notification (sample_env False 6 net_ok) [] (notify_config True False)
        (sample_world (Some (Document (notify_config True False))))
       = (Inr False, sample_world (Some (Document (notify_config True False))))"
proof -
  have f: "fst (get_collection_data (sample_env False 6 net_ok) (notify_config True False)
        (sample_world (Some (Document (notify_config True False))))) = Inr sample_payload"
    by (simp add: sample_fetch net_ok_def raise_for_status_def)
  have m: "expected_message (tomorrow_types ''2024-06-03'' sample_payload)
      = ''Tomorrow's collection includes: Garbage, Recycling.''"
    by (simp add: tomorrow_types_def sample_payload_subjects expected_message_def)
  show ?thesis
    using pushover_only_run
      [of "sample_env False 6 net_ok"
          "sample_world (Some (Document (notify_config True False)))"
          "notify_config True False" "JBool True" "JBool False" sample_payload
          "JObj [(''day'', JStr ''2024-06-03''),
            (''flags'', JArr [JObj [(''subject'', JStr ''Garbage'')],
                             JObj [(''subject'', JStr ''Recycling'')],
                             JObj [(''subject'', JStr ''Garbage'')]])]"
          "JBool False" "[]" "JBool False"]
      f m wf_sample_payload sample_one_event
    by (simp add: sample_config_ok sample_paths sample_clock del: py_path.simps)
qed

lemma no_place_unacceptable: "\<not> acceptable_config no_place_config"
  by (simp add: acceptable_config_def config_value_def no_place_config_def py_get_def)

text \<open>
  C4: in normal mode, with a configuration file whose place id or service id is empty or
  missing, or in which no backend is enabled, or in which an enabled backend lacks a
  credential, \<open>load_config\<close> ends the process with exit status 1 and the run sends no
  request: neither the calendar fetch nor a notification.
\<close>

theorem invalid_config_stops_before_network:
  "\<not> arg_extract_ids e \<and> \<not> arg_config_help e
   \<and> config_file w = Some (Document config) \<and> \<not> acceptable_config config
   \<longrightarrow> fst (load_config w) = Inl (SysExit 1)
     \<and> fst (main e w) = Inl (SysExit 1)
     \<and> exit_code (fst (main e w)) = 1
     \<and> sent_requests (log (snd (main e w))) = sent_requests (log w)"
  using invalid_config_run [of w config e] main_normal [of e w] by auto

theorem invalid_config_stops_before_network_witness:
  "config_file (sample_world (Some (Document no_place_config))) = Some (Document no_place_config)
   \<and> py_path no_place_config [''recollect'', ''place_id''] JNull = Inr JNull
   \<and> fst (main (sample_env True 6 net_ok) (sample_world (Some (Document no_place_config))))
       = Inl (SysExit 1)
   \<and> sent_requests (log (snd (main (sample_env True 6 net_ok)
        (sample_world (Some (Document no_place_config)))))) = []"
proof -
  have "py_path no_place_config [''recollect'', ''place_id''] JNull = Inr JNull"
    by (simp add: no_place_config_def py_get_def)
  then show ?thesis
    using invalid_config_stops_before_network
      [of "sample_env True 6 net_ok" "sample_world (Some (Document no_place_config))"
          no_place_config]
      no_place_unacceptable
    by (simp add: sample_clock del: py_path.simps)
qed

text \<open>
  C5, as the claim states it: every run in normal mode without \<open>--force\<close> on a day that
  is not Sunday exits with status zero. This fails: the configuration is loaded before
  the day gate, so a run without a configuration file exits with status 1 on any day.
\<close>

theorem weekday_run_without_config_fails:
  "\<not> arg_force (sample_env False 2 net_ok)
   \<and> \<not> arg_extract_ids (sample_env False 2 net_ok)
   \<and> \<not> arg_config_help (sample_env False 2 net_ok)
   \<and> weekday (sample_env False 2 net_ok) = 2
   \<and> exit_code (fst (main (sample_env False 2 net_ok) (sample_world None))) = 1"
  by (simp add: sample_clock main_normal normal_run_def load_config_def)

text \<open>
  C5, amended: a run in normal mode without \<open>--force\<close> on a day that is not Sunday never
  sends a request, so the fetch step is not invoked; and when \<open>load_config\<close> accepts the
  configuration, the run prints that it does not run because today is not Sunday,
  changes nothing else, and exits with status zero.
\<close>

theorem weekday_run_skips_fetch:
  "\<not> arg_force e \<and> \<not> arg_extract_ids e \<and> \<not> arg_config_help e \<and> weekday e \<noteq> 6
   \<longrightarrow> sent_requests (log (snd (main e w))) = sent_requests (log w)
     \<and> (\<forall>config. config_file w = Some (Document config)
           \<and> check_config config = Inr Config_ok
         \<longrightarrow> main e w =
               (Inr (), w\<lparr>log := log w @ [Print ''Not running because today is not Sunday'',
                  Print ''Use --force to run regardless of day'']\<rparr>)
           \<and> exit_code (fst (main e w)) = 0)"
proof (intro impI conjI allI)
  assume a: "\<not> arg_force e \<and> \<not> arg_extract_ids e \<and> \<not> arg_config_help e \<and> weekday e \<noteq> 6"
  then have m: "main e w = normal_run e w" by (simp add: main_normal)
  from a show "sent_requests (log (snd (main e w))) = sent_requests (log w)"
    unfolding m by (simp add: normal_run_no_fetch)
  fix config
  assume c: "config_file w = Some (Document config) \<and> check_config config = Inr Config_ok"
  with a have r: "normal_run e w =
     (Inr (), w\<lparr>log := log w @ [Print ''Not running because today is not Sunday'',
        Print ''Use --force to run regardless of day'']\<rparr>)"
    by (simp add: normal_run_gate)
  then show "main e w =
     (Inr (), w\<lparr>log := log w @ [Print ''Not running because today is not Sunday'',
        Print ''Use --force to run regardless of day'']\<rparr>)"
    unfolding m .
  from r show "exit_code (fst (main e w)) = 0" unfolding m by simp
qed

theorem weekday_run_skips_fetch_witness:
  "weekday (sample_env False 2 net_ok) = 2
   \<and> check_config (notify_config True False) = Inr Config_ok
   \<and> main (sample_env False 2 net_ok) (sample_world (Some (Document (notify_config True False))))
       = (Inr (), \<lparr>config_file = Some (Document (notify_config True False)), stdin = [],
            log = [Print ''Not running because today is not Sunday'',
                   Print ''Use --force to run regardless of day'']\<rparr>)
   \<and> sent_requests (log (snd (main (sample_env False 2 net_ok)
        (sample_world (Some (Document (notify_config True False))))))) = []"
  using weekday_run_skips_fetch
    [of "sample_env False 2 net_ok" "sample_world (Some (Document (notify_config True False)))"]
  by (simp add: sample_clock sample_config_ok sample_world_def)






end
